theory Spec2Isabelle
  imports Main "HOL-Library.Word"
begin

section \<open>The external process\<close>

text \<open>
  The package is a wrapper around the \<^verbatim>\<open>ipset\<close> binary: every operation builds an
  argument vector and runs the binary as a subprocess.  The binary and the kernel behind it
  are not part of the program, so they are a parameter of the model: a function that, given
  the invocations made so far and the argument vector of the present one, says how the
  subprocess ends.  As the history grows with every invocation, such a function can realise
  any sequence of outcomes.
\<close>

type_synonym argv = "string list"

text \<open>How a subprocess ends: it could not be started, or it ran and exited with a status,
  having written the given bytes to its standard output and to its standard error.\<close>

datatype run_outcome =
    StartFailure string
  | Exited int string string

type_synonym binary = "argv list \<Rightarrow> argv \<Rightarrow> run_outcome"

text \<open>The error of \<^verbatim>\<open>(*exec.Cmd).Run\<close>: nil when the command ran and exited with
  status zero, an exit error when it exited with another status, another error when it did
  not start.\<close>

datatype exec_error = StartError string | ExitError int

fun Run_error :: "run_outcome \<Rightarrow> exec_error option" where
  "Run_error (StartFailure why) = Some (StartError why)"
| "Run_error (Exited code out err) = (if code = 0 then None else Some (ExitError code))"

fun Run_stdout :: "run_outcome \<Rightarrow> string" where
  "Run_stdout (StartFailure why) = []"
| "Run_stdout (Exited code out err) = out"

fun Run_stderr :: "run_outcome \<Rightarrow> string" where
  "Run_stderr (StartFailure why) = []"
| "Run_stderr (Exited code out err) = err"

section \<open>Data model\<close>

text \<open>Go errors met in the package: the values of \<^verbatim>\<open>errors.New\<close>, and whatever
  \<^verbatim>\<open>xml.Unmarshal\<close> and \<^verbatim>\<open>exec.LookPath\<close> return.\<close>

datatype error =
    ErrorString string
  | UnmarshalError string
  | LookPathError string

fun Error :: "error \<Rightarrow> string" where
  "Error (ErrorString s) = s"
| "Error (UnmarshalError s) = s"
| "Error (LookPathError s) = s"

record IPSet =
  Path :: string

record xml_Name =
  Space :: string
  Local :: string

record SetEntry =
  SetEntry_XMLName :: xml_Name
  Elem :: string

record SetHeader =
  Header_XMLName :: xml_Name
  Family :: string
  HashSize :: "64 word"
  Maxelem :: "64 word"
  MemSize :: "64 word"
  References :: "64 word"
  Numentries :: "64 word"

record SetMembers =
  Members_XMLName :: xml_Name
  Members_Members :: "SetEntry list"

record Set =
  XMLName :: xml_Name
  Name :: string
  Type :: string
  Revision :: string
  Header :: SetHeader
  Members :: SetMembers

text \<open>\<^verbatim>\<open>xml.Unmarshal\<close> into a \<^verbatim>\<open>Sets\<close> value belongs to the Go library; it is a
  parameter, from the bytes of the listing to the decoded records or an error.\<close>

type_synonym unmarshal = "string \<Rightarrow> error + Set list"

section \<open>Decimal formatting\<close>

text \<open>\<^verbatim>\<open>strconv.FormatInt(i, 10)\<close> for a 64-bit signed integer.\<close>

definition digits :: string where
  "digits = ''0123456789''"

fun formatBits :: "nat \<Rightarrow> string" where
  "formatBits n = (if n < 10 then [digits ! n] else formatBits (n div 10) @ [digits ! (n mod 10)])"

declare formatBits.simps [simp del]

definition FormatInt :: "64 word \<Rightarrow> string" where
  "FormatInt i = (if sint i < 0 then CHR ''-'' # formatBits (nat (- sint i)) else formatBits (nat (sint i)))"

section \<open>Running the binary\<close>

text \<open>
  Every function that runs the binary takes the list of invocations made so far and returns
  it extended by its own.  The writer given for standard output is \<open>None\<close> for Go's nil
  (the output is dropped) and \<open>Some b\<close> for a buffer holding \<open>b\<close>.
\<close>

definition runWithOutput ::
  "binary \<Rightarrow> IPSet \<Rightarrow> string list \<Rightarrow> string option \<Rightarrow> argv list
    \<Rightarrow> (error option \<times> string option) \<times> argv list" where
  "runWithOutput bin ipset args stdout calls =
    (let args' = [Path ipset] @ args;
         r = bin calls args';
         stdout' = map_option (\<lambda>b. b @ Run_stdout r) stdout;
         stderr = Run_stderr r
     in case Run_error r of
          Some err \<Rightarrow> ((Some (ErrorString stderr), stdout'), calls @ [args'])
        | None \<Rightarrow> ((None, stdout'), calls @ [args']))"

definition run :: "binary \<Rightarrow> IPSet \<Rightarrow> string list \<Rightarrow> argv list \<Rightarrow> error option \<times> argv list" where
  "run bin ipset args calls =
    (case runWithOutput bin ipset args None calls of ((err, out), calls') \<Rightarrow> (err, calls'))"

section \<open>Operations, one per subcommand\<close>

definition New :: "(string \<Rightarrow> error + string) \<Rightarrow> error + IPSet" where
  "New LookPath = (case LookPath ''ipset'' of Inl err \<Rightarrow> Inl err | Inr binPath \<Rightarrow> Inr \<lparr>Path = binPath\<rparr>)"

definition Create :: "binary \<Rightarrow> IPSet \<Rightarrow> string \<Rightarrow> string \<Rightarrow> string list \<Rightarrow> argv list \<Rightarrow> error option \<times> argv list" where
  "Create bin ipset name typ options = run bin ipset ([''create'', name, typ] @ options)"

definition Add :: "binary \<Rightarrow> IPSet \<Rightarrow> string \<Rightarrow> string \<Rightarrow> string list \<Rightarrow> argv list \<Rightarrow> error option \<times> argv list" where
  "Add bin ipset name entry options = run bin ipset ([''add'', name, entry] @ options)"

definition AddUnique :: "binary \<Rightarrow> IPSet \<Rightarrow> string \<Rightarrow> string \<Rightarrow> string list \<Rightarrow> argv list \<Rightarrow> error option \<times> argv list" where
  "AddUnique bin ipset name entry options = run bin ipset ([''add'', name, entry, ''-exist''] @ options)"

definition Delete :: "binary \<Rightarrow> IPSet \<Rightarrow> string \<Rightarrow> string \<Rightarrow> string list \<Rightarrow> argv list \<Rightarrow> error option \<times> argv list" where
  "Delete bin ipset name entry options = run bin ipset ([''del'', name, entry] @ options)"

definition Test :: "binary \<Rightarrow> IPSet \<Rightarrow> string \<Rightarrow> string \<Rightarrow> string list \<Rightarrow> argv list \<Rightarrow> error option \<times> argv list" where
  "Test bin ipset name entry options = run bin ipset ([''test'', name, entry] @ options)"

definition Destroy :: "binary \<Rightarrow> IPSet \<Rightarrow> string \<Rightarrow> argv list \<Rightarrow> error option \<times> argv list" where
  "Destroy bin ipset name = run bin ipset [''destroy'', name]"

definition Save :: "binary \<Rightarrow> IPSet \<Rightarrow> string \<Rightarrow> string \<Rightarrow> argv list \<Rightarrow> error option \<times> argv list" where
  "Save bin ipset name filename = run bin ipset [''save'', name, ''-file'', filename]"

definition Restore :: "binary \<Rightarrow> IPSet \<Rightarrow> string \<Rightarrow> argv list \<Rightarrow> error option \<times> argv list" where
  "Restore bin ipset filename = run bin ipset [''restore'', ''-file'', filename]"

definition Flush :: "binary \<Rightarrow> IPSet \<Rightarrow> string \<Rightarrow> argv list \<Rightarrow> error option \<times> argv list" where
  "Flush bin ipset name = run bin ipset [''flush'', name]"

definition Rename :: "binary \<Rightarrow> IPSet \<Rightarrow> string \<Rightarrow> string \<Rightarrow> argv list \<Rightarrow> error option \<times> argv list" where
  "Rename bin ipset from to = run bin ipset [''rename'', from, to]"

definition Swap :: "binary \<Rightarrow> IPSet \<Rightarrow> string \<Rightarrow> string \<Rightarrow> argv list \<Rightarrow> error option \<times> argv list" where
  "Swap bin ipset from to = run bin ipset [''swap'', from, to]"

section \<open>Listing\<close>

definition listXML ::
  "binary \<Rightarrow> unmarshal \<Rightarrow> IPSet \<Rightarrow> bool \<Rightarrow> string list \<Rightarrow> argv list \<Rightarrow> (error + Set list) \<times> argv list" where
  "listXML bin Unmarshal ipset suppressMembers args calls =
    (let args1 = [''list'', ''-o'', ''xml''] @ args;
         args2 = (if suppressMembers then args1 @ [''-t''] else args1)
     in case runWithOutput bin ipset args2 (Some []) calls of
          ((Some err, stdout), calls') \<Rightarrow> (Inl err, calls')
        | ((None, stdout), calls') \<Rightarrow>
            (case Unmarshal (case stdout of None \<Rightarrow> [] | Some b \<Rightarrow> b) of
               Inl err \<Rightarrow> (Inl err, calls')
             | Inr sets \<Rightarrow> (Inr sets, calls')))"

definition List :: "binary \<Rightarrow> unmarshal \<Rightarrow> IPSet \<Rightarrow> string \<Rightarrow> bool \<Rightarrow> argv list \<Rightarrow> (error + Set) \<times> argv list" where
  "List bin Unmarshal ipset name suppressMembers calls =
    (case listXML bin Unmarshal ipset suppressMembers [name] calls of
       (Inl err, calls') \<Rightarrow> (Inl err, calls')
     | (Inr sets, calls') \<Rightarrow>
         (if length sets \<noteq> 1
          then (Inl (ErrorString ''list named set return results not equal one''), calls')
          else (Inr (sets ! 0), calls')))"

definition ListEntries :: "binary \<Rightarrow> unmarshal \<Rightarrow> IPSet \<Rightarrow> string \<Rightarrow> argv list \<Rightarrow> (error + string list) \<times> argv list" where
  "ListEntries bin Unmarshal ipset name calls =
    (case List bin Unmarshal ipset name False calls of
       (Inl err, calls') \<Rightarrow> (Inl err, calls')
     | (Inr s, calls') \<Rightarrow>
         (Inr (foldl (\<lambda>entries m. entries @ [Elem m]) [] (Members_Members (Members s))), calls'))"

definition ListSets :: "binary \<Rightarrow> unmarshal \<Rightarrow> IPSet \<Rightarrow> bool \<Rightarrow> argv list \<Rightarrow> (error + Set list) \<times> argv list" where
  "ListSets bin Unmarshal ipset suppressMembers = listXML bin Unmarshal ipset suppressMembers []"

definition ListSetNames :: "binary \<Rightarrow> unmarshal \<Rightarrow> IPSet \<Rightarrow> argv list \<Rightarrow> (error + string list) \<times> argv list" where
  "ListSetNames bin Unmarshal ipset calls =
    (case listXML bin Unmarshal ipset False [''-n''] calls of
       (Inl err, calls') \<Rightarrow> (Inl err, calls')
     | (Inr sets, calls') \<Rightarrow> (Inr (foldl (\<lambda>names s. names @ [Name s]) [] sets), calls'))"

definition GetReferences :: "binary \<Rightarrow> unmarshal \<Rightarrow> IPSet \<Rightarrow> string \<Rightarrow> argv list \<Rightarrow> (error + 64 word) \<times> argv list" where
  "GetReferences bin Unmarshal ipset name calls =
    (case List bin Unmarshal ipset name True calls of
       (Inl err, calls') \<Rightarrow> (Inl err, calls')
     | (Inr s, calls') \<Rightarrow> (Inr (References (Header s)), calls'))"

section \<open>Refresh\<close>

text \<open>The loop of \<open>Refresh\<close> over the entries: one \<open>AddUnique\<close> each, returning at the
  first error.\<close>

fun Refresh_entries :: "binary \<Rightarrow> IPSet \<Rightarrow> string \<Rightarrow> string list \<Rightarrow> argv list \<Rightarrow> error option \<times> argv list" where
  "Refresh_entries bin ipset tempname [] calls = (None, calls)"
| "Refresh_entries bin ipset tempname (entry # entries) calls =
    (case AddUnique bin ipset tempname entry [] calls of
       (Some err, calls') \<Rightarrow> (Some err, calls')
     | (None, calls') \<Rightarrow> Refresh_entries bin ipset tempname entries calls')"

definition Refresh :: "binary \<Rightarrow> unmarshal \<Rightarrow> IPSet \<Rightarrow> string \<Rightarrow> string list \<Rightarrow> argv list \<Rightarrow> error option \<times> argv list" where
  "Refresh bin Unmarshal ipset name entries calls =
    (let tempname = name @ ''-swptemp'' in
     case List bin Unmarshal ipset name True calls of
       (Inl err, calls1) \<Rightarrow> (Some err, calls1)
     | (Inr s, calls1) \<Rightarrow>
         (let opts = [''family'', Family (Header s),
                      ''hashsize'', FormatInt (HashSize (Header s)),
                      ''maxelem'', FormatInt (Maxelem (Header s))]
          in case Create bin ipset tempname (Type s) opts calls1 of
               (Some err, calls2) \<Rightarrow>
                 (Some (ErrorString (''cannot create the temp set for swap: '' @ Error err)), calls2)
             | (None, calls2) \<Rightarrow>
                 (case Refresh_entries bin ipset tempname entries calls2 of
                    (Some err, calls3) \<Rightarrow> (Some err, calls3)
                  | (None, calls3) \<Rightarrow>
                      (case Swap bin ipset tempname name calls3 of
                         (Some err, calls4) \<Rightarrow> (Some err, calls4)
                       | (None, calls4) \<Rightarrow>
                           (case Destroy bin ipset tempname calls4 of
                              (Some err, calls5) \<Rightarrow> (Some err, calls5)
                            | (None, calls5) \<Rightarrow> (None, calls5))))))"

section \<open>The protocol of Refresh, as a list of steps\<close>

text \<open>Steps run in order; the first one that fails ends the run, and its error and the
  invocations made up to then are the result.\<close>

fun in_order :: "(argv list \<Rightarrow> error option \<times> argv list) list \<Rightarrow> argv list \<Rightarrow> error option \<times> argv list" where
  "in_order [] calls = (None, calls)"
| "in_order (step # steps) calls =
    (case step calls of
       (Some err, calls') \<Rightarrow> (Some err, calls')
     | (None, calls') \<Rightarrow> in_order steps calls')"

text \<open>A step whose error, if any, is replaced by a new error: the given prefix followed by
  the message of the step's error.\<close>

definition prefixed :: "string \<Rightarrow> (argv list \<Rightarrow> error option \<times> argv list) \<Rightarrow> argv list \<Rightarrow> error option \<times> argv list" where
  "prefixed p step calls =
    (case step calls of
       (Some err, calls') \<Rightarrow> (Some (ErrorString (p @ Error err)), calls')
     | (None, calls') \<Rightarrow> (None, calls'))"

text \<open>Step 2: the temporary set, of the target's type, with family, hashsize and maxelem
  copied from the target's header.\<close>

definition Refresh_create :: "binary \<Rightarrow> IPSet \<Rightarrow> string \<Rightarrow> Set \<Rightarrow> argv list \<Rightarrow> error option \<times> argv list" where
  "Refresh_create bin ipset name s =
    Create bin ipset (name @ ''-swptemp'') (Type s)
      [''family'', Family (Header s),
       ''hashsize'', FormatInt (HashSize (Header s)),
       ''maxelem'', FormatInt (Maxelem (Header s))]"

text \<open>Steps 3 to 5: one idempotent add per entry, in input order, the swap, the destruction
  of the temporary set.\<close>

definition Refresh_populate_swap_destroy ::
  "binary \<Rightarrow> IPSet \<Rightarrow> string \<Rightarrow> string list \<Rightarrow> (argv list \<Rightarrow> error option \<times> argv list) list" where
  "Refresh_populate_swap_destroy bin ipset name entries =
    map (\<lambda>entry. AddUnique bin ipset (name @ ''-swptemp'') entry []) entries
    @ [Swap bin ipset (name @ ''-swptemp'') name, Destroy bin ipset (name @ ''-swptemp'')]"

text \<open>The five steps of the protocol: the listing of the target with members suppressed,
  then the steps above, in order and up to the first failure.\<close>

definition Refresh_sequence :: "binary \<Rightarrow> unmarshal \<Rightarrow> IPSet \<Rightarrow> string \<Rightarrow> string list \<Rightarrow> argv list \<Rightarrow> error option \<times> argv list" where
  "Refresh_sequence bin Unmarshal ipset name entries calls =
    (case List bin Unmarshal ipset name True calls of
       (Inl err, calls') \<Rightarrow> (Some err, calls')
     | (Inr s, calls') \<Rightarrow>
         in_order (Refresh_create bin ipset name s # Refresh_populate_swap_destroy bin ipset name entries) calls')"

section \<open>Concrete environments\<close>

definition example_ipset :: IPSet where
  "example_ipset = \<lparr>Path = ''/sbin/ipset''\<rparr>"

definition example_set :: Set where
  "example_set =
    \<lparr>XMLName = \<lparr>Space = [], Local = ''ipset''\<rparr>,
     Name = ''blocklist'',
     Type = ''hash:ip'',
     Revision = ''4'',
     Header = \<lparr>Header_XMLName = \<lparr>Space = [], Local = ''header''\<rparr>,
               Family = ''inet'', HashSize = 1024, Maxelem = 65536,
               MemSize = 448, References = 0, Numentries = 2\<rparr>,
     Members = \<lparr>Members_XMLName = \<lparr>Space = [], Local = ''members''\<rparr>,
                Members_Members =
                  [\<lparr>SetEntry_XMLName = \<lparr>Space = [], Local = ''member''\<rparr>, Elem = ''10.0.0.1''\<rparr>,
                   \<lparr>SetEntry_XMLName = \<lparr>Space = [], Local = ''member''\<rparr>, Elem = ''10.0.0.2''\<rparr>]\<rparr>\<rparr>"

text \<open>A decoder that yields the given records whatever the bytes.\<close>

definition decodes_to :: "Set list \<Rightarrow> unmarshal" where
  "decodes_to sets bytes = Inr sets"

text \<open>A binary that exits with the given status and standard error on every invocation.\<close>

definition exits_with :: "int \<Rightarrow> string \<Rightarrow> binary" where
  "exits_with code err calls args = Exited code [] err"

text \<open>A binary that cannot be started.\<close>

definition cannot_start :: binary where
  "cannot_start calls args = StartFailure ''fork/exec /sbin/ipset: no such file or directory''"

text \<open>A binary that exits with status 1 and the given standard error on the subcommand
  \<^verbatim>\<open>create\<close>, and with status 0 on every other one.\<close>

definition refuses_create :: "string \<Rightarrow> binary" where
  "refuses_create err calls args =
    (if take 1 (drop 1 args) = [''create''] then Exited 1 [] err else Exited 0 [] [])"

text \<open>A binary that exits with the given status and standard error on the given subcommand,
  and with status 0 on every other one.\<close>

definition refuses :: "string \<Rightarrow> int \<Rightarrow> string \<Rightarrow> binary" where
  "refuses subcommand code err calls args =
    (if take 1 (drop 1 args) = [subcommand] then Exited code [] err else Exited 0 [] [])"

section \<open>Basic facts\<close>

lemma formatBits_digit: "n < 10 \<Longrightarrow> formatBits n = [digits ! n]"
  by (simp add: formatBits.simps)

lemma formatBits_more: "10 \<le> n \<Longrightarrow> formatBits n = formatBits (n div 10) @ [digits ! (n mod 10)]"
  by (subst formatBits.simps) simp

text \<open>What one run of the binary gives: the error is decided by the outcome of the
  subprocess for this argument vector, and the invocation is recorded.\<close>

lemma runWithOutput_eq:
  "runWithOutput bin ipset args stdout calls =
     ((case Run_error (bin calls (Path ipset # args)) of
         Some e \<Rightarrow> Some (ErrorString (Run_stderr (bin calls (Path ipset # args))))
       | None \<Rightarrow> None,
       map_option (\<lambda>b. b @ Run_stdout (bin calls (Path ipset # args))) stdout),
      calls @ [Path ipset # args])"
  by (simp add: runWithOutput_def Let_def split: option.split)

lemma run_eq:
  "run bin ipset args calls =
     (case Run_error (bin calls (Path ipset # args)) of
        Some e \<Rightarrow> Some (ErrorString (Run_stderr (bin calls (Path ipset # args))))
      | None \<Rightarrow> None,
      calls @ [Path ipset # args])"
  by (simp add: run_def runWithOutput_eq)

lemma listXML_eq:
  "listXML bin Unmarshal ipset suppressMembers args calls =
     (case Run_error (bin calls (Path ipset # ''list'' # ''-o'' # ''xml'' # args @ (if suppressMembers then [''-t''] else []))) of
        Some e \<Rightarrow> Inl (ErrorString (Run_stderr (bin calls (Path ipset # ''list'' # ''-o'' # ''xml'' # args @ (if suppressMembers then [''-t''] else [])))))
      | None \<Rightarrow> Unmarshal (Run_stdout (bin calls (Path ipset # ''list'' # ''-o'' # ''xml'' # args @ (if suppressMembers then [''-t''] else [])))),
      calls @ [Path ipset # ''list'' # ''-o'' # ''xml'' # args @ (if suppressMembers then [''-t''] else [])])"
  by (simp add: listXML_def runWithOutput_eq Let_def split: option.split sum.split)

text \<open>A loop that appends one projected field per element builds the list of the fields.\<close>

lemma foldl_snoc_map: "foldl (\<lambda>acc x. acc @ [f x]) acc xs = acc @ map f xs"
  by (induction xs arbitrary: acc) simp_all

text \<open>The loop of \<open>Refresh\<close> is the run, in order, of one \<open>AddUnique\<close> per entry.\<close>

lemma Refresh_entries_in_order:
  "Refresh_entries bin ipset tempname entries calls =
     in_order (map (\<lambda>entry. AddUnique bin ipset tempname entry []) entries) calls"
  by (induction entries arbitrary: calls) (simp_all split: prod.split option.split)

lemma in_order_append:
  "in_order (xs @ ys) calls =
     (case in_order xs calls of
        (Some err, calls') \<Rightarrow> (Some err, calls')
      | (None, calls') \<Rightarrow> in_order ys calls')"
  by (induction xs arbitrary: calls) (simp_all split: prod.split option.split)

text \<open>When a run of steps fails, the error and the invocations it returns are those of
  one step, reached after the success of every step before it: nothing runs after the
  failing step.\<close>

lemma in_order_first_failure:
  "in_order steps calls = (Some err, calls') \<Longrightarrow>
     \<exists>i < length steps. \<exists>c. in_order (take i steps) calls = (None, c) \<and> (steps ! i) c = (Some err, calls')"
proof (induction steps arbitrary: calls)
  case Nil
  then show ?case by simp
next
  case (Cons step steps)
  show ?case
  proof (cases "step calls")
    case (Pair r c1)
    show ?thesis
    proof (cases r)
      case None
      with Pair Cons.prems have "in_order steps c1 = (Some err, calls')" by simp
      from Cons.IH [OF this] obtain i c where
        i: "i < length steps" "in_order (take i steps) c1 = (None, c)" "(steps ! i) c = (Some err, calls')"
        by blast
      have "Suc i < length (step # steps)" using i(1) by simp
      moreover have "in_order (take (Suc i) (step # steps)) calls = (None, c)"
        using Pair None i(2) by simp
      moreover have "((step # steps) ! Suc i) c = (Some err, calls')" using i(3) by simp
      ultimately show ?thesis by blast
    next
      case (Some e)
      with Pair Cons.prems have "step calls = (Some err, calls')" by simp
      then have "in_order (take 0 (step # steps)) calls = (None, calls) \<and> ((step # steps) ! 0) calls = (Some err, calls')"
        by simp
      then show ?thesis by (metis length_Cons zero_less_Suc)
    qed
  qed
qed

text \<open>The invocations of \<open>Refresh\<close> when every step succeeds.\<close>

lemma AddUnique_all_succeed:
  assumes "\<And>h a. Run_error (bin h a) = None"
  shows "in_order (map (\<lambda>entry. AddUnique bin ipset tempname entry []) entries) calls
           = (None, calls @ map (\<lambda>entry. [Path ipset, ''add'', tempname, entry, ''-exist'']) entries)"
  by (induction entries arbitrary: calls) (simp_all add: AddUnique_def run_eq assms)

lemma Refresh_invocations_when_all_succeed:
  assumes ok: "\<And>h a. Run_error (bin h a) = None"
    and one: "\<And>h a. Unmarshal (Run_stdout (bin h a)) = Inr [s]"
  shows "Refresh bin Unmarshal ipset name entries calls =
    (None,
     calls
     @ [[Path ipset, ''list'', ''-o'', ''xml'', name, ''-t''],
        [Path ipset, ''create'', name @ ''-swptemp'', Type s,
         ''family'', Family (Header s),
         ''hashsize'', FormatInt (HashSize (Header s)),
         ''maxelem'', FormatInt (Maxelem (Header s))]]
     @ map (\<lambda>entry. [Path ipset, ''add'', name @ ''-swptemp'', entry, ''-exist'']) entries
     @ [[Path ipset, ''swap'', name @ ''-swptemp'', name],
        [Path ipset, ''destroy'', name @ ''-swptemp'']])"
  by (simp add: Refresh_def Let_def List_def listXML_eq Create_def Swap_def Destroy_def run_eq
        Refresh_entries_in_order AddUnique_all_succeed ok one)

text \<open>The failure of one step of \<open>Refresh\<close>, the steps before it having succeeded:
  what \<open>Refresh\<close> returns, and the invocations made, for each of the five steps.\<close>

lemma Refresh_entries_append:
  "Refresh_entries bin ipset tempname (xs @ ys) calls =
     (case Refresh_entries bin ipset tempname xs calls of
        (Some err, calls') \<Rightarrow> (Some err, calls')
      | (None, calls') \<Rightarrow> Refresh_entries bin ipset tempname ys calls')"
  by (induction xs arbitrary: calls) (simp_all split: prod.split option.split)

lemma Refresh_entries_fails_at:
  assumes "i < length entries"
    and "Refresh_entries bin ipset tempname (take i entries) calls = (None, calls')"
    and "Run_error (bin calls' [Path ipset, ''add'', tempname, entries ! i, ''-exist'']) = Some cause"
  shows "Refresh_entries bin ipset tempname entries calls =
           (Some (ErrorString (Run_stderr (bin calls' [Path ipset, ''add'', tempname, entries ! i, ''-exist'']))),
            calls' @ [[Path ipset, ''add'', tempname, entries ! i, ''-exist'']])"
proof -
  have split: "entries = take i entries @ (entries ! i) # drop (Suc i) entries"
    using assms(1) by (simp add: id_take_nth_drop)
  have "Refresh_entries bin ipset tempname (take i entries @ (entries ! i) # drop (Suc i) entries) calls =
           (Some (ErrorString (Run_stderr (bin calls' [Path ipset, ''add'', tempname, entries ! i, ''-exist'']))),
            calls' @ [[Path ipset, ''add'', tempname, entries ! i, ''-exist'']])"
    using assms(2,3) by (simp add: Refresh_entries_append AddUnique_def run_eq)
  with split show ?thesis by simp
qed

lemma Refresh_fails_at_list:
  assumes "Run_error (bin calls [Path ipset, ''list'', ''-o'', ''xml'', name, ''-t'']) = Some cause"
  shows "Refresh bin Unmarshal ipset name entries calls =
           (Some (ErrorString (Run_stderr (bin calls [Path ipset, ''list'', ''-o'', ''xml'', name, ''-t'']))),
            calls @ [[Path ipset, ''list'', ''-o'', ''xml'', name, ''-t'']])"
  using assms by (simp add: Refresh_def List_def listXML_eq)

lemma Refresh_fails_at_create:
  assumes "List bin Unmarshal ipset name True calls = (Inr s, calls1)"
    and "Run_error (bin calls1 [Path ipset, ''create'', name @ ''-swptemp'', Type s,
           ''family'', Family (Header s), ''hashsize'', FormatInt (HashSize (Header s)),
           ''maxelem'', FormatInt (Maxelem (Header s))]) = Some cause"
  shows "Refresh bin Unmarshal ipset name entries calls =
           (Some (ErrorString (''cannot create the temp set for swap: '' @
              Run_stderr (bin calls1 [Path ipset, ''create'', name @ ''-swptemp'', Type s,
                ''family'', Family (Header s), ''hashsize'', FormatInt (HashSize (Header s)),
                ''maxelem'', FormatInt (Maxelem (Header s))]))),
            calls1 @ [[Path ipset, ''create'', name @ ''-swptemp'', Type s,
              ''family'', Family (Header s), ''hashsize'', FormatInt (HashSize (Header s)),
              ''maxelem'', FormatInt (Maxelem (Header s))]])"
  using assms by (simp add: Refresh_def Let_def Create_def run_eq)

lemma Refresh_fails_at_add:
  assumes "List bin Unmarshal ipset name True calls = (Inr s, calls1)"
    and "Create bin ipset (name @ ''-swptemp'') (Type s)
           [''family'', Family (Header s), ''hashsize'', FormatInt (HashSize (Header s)),
            ''maxelem'', FormatInt (Maxelem (Header s))] calls1 = (None, calls2)"
    and "i < length entries"
    and "Refresh_entries bin ipset (name @ ''-swptemp'') (take i entries) calls2 = (None, calls3)"
    and "Run_error (bin calls3 [Path ipset, ''add'', name @ ''-swptemp'', entries ! i, ''-exist'']) = Some cause"
  shows "Refresh bin Unmarshal ipset name entries calls =
           (Some (ErrorString (Run_stderr (bin calls3 [Path ipset, ''add'', name @ ''-swptemp'', entries ! i, ''-exist'']))),
            calls3 @ [[Path ipset, ''add'', name @ ''-swptemp'', entries ! i, ''-exist'']])"
  using assms(1,2) Refresh_entries_fails_at [OF assms(3,4,5)]
  by (simp add: Refresh_def Let_def)

lemma Refresh_fails_at_swap:
  assumes "List bin Unmarshal ipset name True calls = (Inr s, calls1)"
    and "Create bin ipset (name @ ''-swptemp'') (Type s)
           [''family'', Family (Header s), ''hashsize'', FormatInt (HashSize (Header s)),
            ''maxelem'', FormatInt (Maxelem (Header s))] calls1 = (None, calls2)"
    and "Refresh_entries bin ipset (name @ ''-swptemp'') entries calls2 = (None, calls3)"
    and "Run_error (bin calls3 [Path ipset, ''swap'', name @ ''-swptemp'', name]) = Some cause"
  shows "Refresh bin Unmarshal ipset name entries calls =
           (Some (ErrorString (Run_stderr (bin calls3 [Path ipset, ''swap'', name @ ''-swptemp'', name]))),
            calls3 @ [[Path ipset, ''swap'', name @ ''-swptemp'', name]])"
  using assms by (simp add: Refresh_def Let_def Swap_def run_eq)

lemma Refresh_fails_at_destroy:
  assumes "List bin Unmarshal ipset name True calls = (Inr s, calls1)"
    and "Create bin ipset (name @ ''-swptemp'') (Type s)
           [''family'', Family (Header s), ''hashsize'', FormatInt (HashSize (Header s)),
            ''maxelem'', FormatInt (Maxelem (Header s))] calls1 = (None, calls2)"
    and "Refresh_entries bin ipset (name @ ''-swptemp'') entries calls2 = (None, calls3)"
    and "Swap bin ipset (name @ ''-swptemp'') name calls3 = (None, calls4)"
    and "Run_error (bin calls4 [Path ipset, ''destroy'', name @ ''-swptemp'']) = Some cause"
  shows "Refresh bin Unmarshal ipset name entries calls =
           (Some (ErrorString (Run_stderr (bin calls4 [Path ipset, ''destroy'', name @ ''-swptemp'']))),
            calls4 @ [[Path ipset, ''destroy'', name @ ''-swptemp'']])"
  using assms by (simp add: Refresh_def Let_def Destroy_def run_eq)

text \<open>Values used in the concrete runs below.\<close>

lemma FormatInt_1024: "FormatInt 1024 = ''1024''"
  by (simp add: FormatInt_def formatBits_digit formatBits_more digits_def)

lemma FormatInt_65536: "FormatInt 65536 = ''65536''"
  by (simp add: FormatInt_def formatBits_digit formatBits_more digits_def)

lemma List_example:
  "List (refuses_create err) (decodes_to [example_set]) example_ipset ''blocklist'' True []
     = (Inr example_set, [[''/sbin/ipset'', ''list'', ''-o'', ''xml'', ''blocklist'', ''-t'']])"
  by (simp add: List_def listXML_eq refuses_create_def decodes_to_def example_ipset_def)

section \<open>Refresh\<close>

text \<open>
  Claim C1.  For every name and entry list, \<open>Refresh\<close> performs exactly the protocol's
  sequence of operations, in this order and stopping at the first failure: the listing of
  the target with members suppressed; the creation of the temporary set
  \<^verbatim>\<open><name>-swptemp\<close> with the target's type and with family, hashsize and maxelem copied
  from the target's header; one \<open>AddUnique\<close> on the temporary set per entry, in input
  order; the swap of the temporary set with the target; the destruction of the temporary
  set.  The invocations of the binary made by \<open>Refresh\<close> are those of that sequence, and
  \<open>Refresh\<close> succeeds exactly when every step of the sequence does.
\<close>

theorem Refresh_performs_sequence:
  "snd (Refresh bin Unmarshal ipset name entries calls)
     = snd (Refresh_sequence bin Unmarshal ipset name entries calls)
   \<and> (fst (Refresh bin Unmarshal ipset name entries calls) = None)
       = (fst (Refresh_sequence bin Unmarshal ipset name entries calls) = None)"
  by (simp add: Refresh_def Refresh_sequence_def Let_def Refresh_entries_in_order in_order_append
        Refresh_create_def Refresh_populate_swap_destroy_def
      split: prod.split sum.split option.split)

text \<open>
  Claim C2.  As stated, the claim says that a failing step's own error is what \<open>Refresh\<close>
  returns.  That fails for the creation of the temporary set: when the binary refuses the
  subcommand \<^verbatim>\<open>create\<close>, the step's error carries the standard error of the binary,
  while \<open>Refresh\<close> returns a new error whose message is that text after the prefix
  \<^verbatim>\<open>cannot create the temp set for swap: \<close>.  No invocation follows the failed one.
\<close>

theorem Refresh_create_error_counterexample:
  "Create (refuses_create ''ipset v7.15: Set cannot be created: set with the same name already exists'')
      example_ipset ''blocklist-swptemp'' ''hash:ip''
      [''family'', ''inet'', ''hashsize'', ''1024'', ''maxelem'', ''65536'']
      [[''/sbin/ipset'', ''list'', ''-o'', ''xml'', ''blocklist'', ''-t'']]
     = (Some (ErrorString ''ipset v7.15: Set cannot be created: set with the same name already exists''),
        [[''/sbin/ipset'', ''list'', ''-o'', ''xml'', ''blocklist'', ''-t''],
         [''/sbin/ipset'', ''create'', ''blocklist-swptemp'', ''hash:ip'',
          ''family'', ''inet'', ''hashsize'', ''1024'', ''maxelem'', ''65536'']])
   \<and> Refresh (refuses_create ''ipset v7.15: Set cannot be created: set with the same name already exists'')
      (decodes_to [example_set]) example_ipset ''blocklist'' [''10.0.0.3''] []
     = (Some (ErrorString ''cannot create the temp set for swap: ipset v7.15: Set cannot be created: set with the same name already exists''),
        [[''/sbin/ipset'', ''list'', ''-o'', ''xml'', ''blocklist'', ''-t''],
         [''/sbin/ipset'', ''create'', ''blocklist-swptemp'', ''hash:ip'',
          ''family'', ''inet'', ''hashsize'', ''1024'', ''maxelem'', ''65536'']])
   \<and> fst (Refresh (refuses_create ''ipset v7.15: Set cannot be created: set with the same name already exists'')
      (decodes_to [example_set]) example_ipset ''blocklist'' [''10.0.0.3''] [])
     \<noteq> Some (ErrorString ''ipset v7.15: Set cannot be created: set with the same name already exists'')"
  apply (simp add: Refresh_def Let_def List_example Create_def run_eq refuses_create_def)
  apply (simp add: example_ipset_def example_set_def FormatInt_1024 FormatInt_65536)
  done

text \<open>
  Claim C2, amended.  For every name and entry list, if a step of \<open>Refresh\<close> fails,
  \<open>Refresh\<close> aborts the sequence and performs no further invocation of the binary (in
  particular it does not destroy the temporary set), and it returns that step's error;
  except that a failure of the creation of the temporary set is returned as a new error,
  whose message is \<^verbatim>\<open>cannot create the temp set for swap: \<close> followed by the message of
  the creation's error.
\<close>

theorem Refresh_failure_policy:
  "Refresh bin Unmarshal ipset name entries calls =
     (case List bin Unmarshal ipset name True calls of
        (Inl err, calls') \<Rightarrow> (Some err, calls')
      | (Inr s, calls') \<Rightarrow>
          in_order (prefixed ''cannot create the temp set for swap: '' (Refresh_create bin ipset name s)
                    # Refresh_populate_swap_destroy bin ipset name entries) calls')"
  by (simp add: Refresh_def Let_def Refresh_entries_in_order in_order_append prefixed_def
        Refresh_create_def Refresh_populate_swap_destroy_def
      split: prod.split sum.split option.split)

section \<open>Listing\<close>

text \<open>
  Claim C3.  For every name, \<open>List\<close> fails with the ambiguous-result error (the error
  of message \<^verbatim>\<open>list named set return results not equal one\<close>) whenever the decoding
  of the listing yields a number of records other than one, zero records and more than one
  alike, and returns the single decoded record otherwise.
\<close>

theorem List_requires_exactly_one_record:
  assumes "Run_error (bin calls ([Path ipset, ''list'', ''-o'', ''xml'', name] @ (if suppressMembers then [''-t''] else []))) = None"
    and "Unmarshal (Run_stdout (bin calls ([Path ipset, ''list'', ''-o'', ''xml'', name] @ (if suppressMembers then [''-t''] else [])))) = Inr sets"
  shows "List bin Unmarshal ipset name suppressMembers calls =
           (case sets of
              [s] \<Rightarrow> Inr s
            | _ \<Rightarrow> Inl (ErrorString ''list named set return results not equal one''),
            calls @ [[Path ipset, ''list'', ''-o'', ''xml'', name] @ (if suppressMembers then [''-t''] else [])])"
  using assms by (cases sets; cases "tl sets") (auto simp add: List_def listXML_eq)

theorem List_requires_exactly_one_record_witness:
  "fst (List (exits_with 0 []) (decodes_to []) example_ipset ''blocklist'' False [])
     = Inl (ErrorString ''list named set return results not equal one'')
   \<and> fst (List (exits_with 0 []) (decodes_to [example_set]) example_ipset ''blocklist'' False [])
     = Inr example_set
   \<and> fst (List (exits_with 0 []) (decodes_to [example_set, example_set]) example_ipset ''blocklist'' False [])
     = Inl (ErrorString ''list named set return results not equal one'')"
  using List_requires_exactly_one_record [where bin = "exits_with 0 []" and calls = "[]" and ipset = example_ipset
          and name = "''blocklist''" and suppressMembers = False and Unmarshal = "decodes_to []" and sets = "[]"]
        List_requires_exactly_one_record [where bin = "exits_with 0 []" and calls = "[]" and ipset = example_ipset
          and name = "''blocklist''" and suppressMembers = False and Unmarshal = "decodes_to [example_set]" and sets = "[example_set]"]
        List_requires_exactly_one_record [where bin = "exits_with 0 []" and calls = "[]" and ipset = example_ipset
          and name = "''blocklist''" and suppressMembers = False and Unmarshal = "decodes_to [example_set, example_set]"
          and sets = "[example_set, example_set]"]
  by (simp add: exits_with_def decodes_to_def)

text \<open>
  Claim C4.  As stated, the claim puts the flag \<^verbatim>\<open>-t\<close> before the name of the set.  The
  listing of a named set with members suppressed runs the binary with the name first and
  the flag last.
\<close>

theorem listing_argument_order_counterexample:
  "snd (List (exits_with 0 []) (decodes_to [example_set]) example_ipset ''blocklist'' True [])
     = [[''/sbin/ipset'', ''list'', ''-o'', ''xml'', ''blocklist'', ''-t'']]
   \<and> snd (List (exits_with 0 []) (decodes_to [example_set]) example_ipset ''blocklist'' True [])
     \<noteq> [[''/sbin/ipset'', ''list'', ''-o'', ''xml'', ''-t'', ''blocklist'']]"
  by (simp add: List_def listXML_eq exits_with_def decodes_to_def example_ipset_def)

text \<open>
  Claim C4, amended.  The listing operations run the binary with the arguments
  \<^verbatim>\<open>list -o xml [name] [-t]\<close>: the subcommand \<^verbatim>\<open>list\<close> followed by
  \<^verbatim>\<open>-o xml\<close>, then the name of the set for the operations that take one, then the flag
  \<^verbatim>\<open>-t\<close> when the suppression of members is requested, in that order;
  \<open>ListSetNames\<close> runs it with \<^verbatim>\<open>list -o xml -n\<close>.
\<close>

theorem listing_arguments:
  "snd (ListSets bin Unmarshal ipset suppressMembers calls)
     = calls @ [[Path ipset, ''list'', ''-o'', ''xml''] @ (if suppressMembers then [''-t''] else [])]
   \<and> snd (List bin Unmarshal ipset name suppressMembers calls)
     = calls @ [[Path ipset, ''list'', ''-o'', ''xml'', name] @ (if suppressMembers then [''-t''] else [])]
   \<and> snd (ListEntries bin Unmarshal ipset name calls)
     = calls @ [[Path ipset, ''list'', ''-o'', ''xml'', name]]
   \<and> snd (GetReferences bin Unmarshal ipset name calls)
     = calls @ [[Path ipset, ''list'', ''-o'', ''xml'', name, ''-t'']]
   \<and> snd (ListSetNames bin Unmarshal ipset calls)
     = calls @ [[Path ipset, ''list'', ''-o'', ''xml'', ''-n'']]"
proof (intro conjI)
  show "snd (ListSets bin Unmarshal ipset suppressMembers calls)
     = calls @ [[Path ipset, ''list'', ''-o'', ''xml''] @ (if suppressMembers then [''-t''] else [])]"
    by (simp add: ListSets_def listXML_eq)
  show l: "\<And>b. snd (List bin Unmarshal ipset name b calls)
     = calls @ [[Path ipset, ''list'', ''-o'', ''xml'', name] @ (if b then [''-t''] else [])]"
    by (simp add: List_def listXML_eq split: sum.split)
  show "snd (ListEntries bin Unmarshal ipset name calls)
     = calls @ [[Path ipset, ''list'', ''-o'', ''xml'', name]]"
    using l [of False] by (auto simp add: ListEntries_def split: prod.split sum.split)
  show "snd (GetReferences bin Unmarshal ipset name calls)
     = calls @ [[Path ipset, ''list'', ''-o'', ''xml'', name, ''-t'']]"
    using l [of True] by (auto simp add: GetReferences_def split: prod.split sum.split)
  show "snd (ListSetNames bin Unmarshal ipset calls)
     = calls @ [[Path ipset, ''list'', ''-o'', ''xml'', ''-n'']]"
    by (simp add: ListSetNames_def listXML_eq split: sum.split)
qed

text \<open>
  Claim C5.  As stated, the claim puts the flag \<^verbatim>\<open>-n\<close> immediately after the
  subcommand, before \<^verbatim>\<open>-o xml\<close>.  \<open>ListSetNames\<close> runs the binary with the flag
  last.
\<close>

theorem ListSetNames_argument_order_counterexample:
  "snd (ListSetNames (exits_with 0 []) (decodes_to [example_set]) example_ipset [])
     = [[''/sbin/ipset'', ''list'', ''-o'', ''xml'', ''-n'']]
   \<and> snd (ListSetNames (exits_with 0 []) (decodes_to [example_set]) example_ipset [])
     \<noteq> [[''/sbin/ipset'', ''list'', ''-n'', ''-o'', ''xml'']]"
  by (simp add: ListSetNames_def listXML_eq exits_with_def decodes_to_def example_ipset_def)

text \<open>
  Claim C5, amended.  \<open>ListSetNames\<close> runs the binary with the arguments
  \<^verbatim>\<open>list -o xml -n\<close> (the flag \<^verbatim>\<open>-n\<close> after \<^verbatim>\<open>-o xml\<close>), decodes the output,
  and returns the \<open>Name\<close> field of each decoded record, in decoded order; a failure of
  the binary or of the decoding is returned as it is.
\<close>

theorem ListSetNames_names_in_order:
  "ListSetNames bin Unmarshal ipset calls =
     (case Run_error (bin calls [Path ipset, ''list'', ''-o'', ''xml'', ''-n'']) of
        Some e \<Rightarrow> Inl (ErrorString (Run_stderr (bin calls [Path ipset, ''list'', ''-o'', ''xml'', ''-n''])))
      | None \<Rightarrow>
          (case Unmarshal (Run_stdout (bin calls [Path ipset, ''list'', ''-o'', ''xml'', ''-n''])) of
             Inl err \<Rightarrow> Inl err
           | Inr sets \<Rightarrow> Inr (map Name sets)),
      calls @ [[Path ipset, ''list'', ''-o'', ''xml'', ''-n'']])"
  by (simp add: ListSetNames_def listXML_eq foldl_snoc_map split: option.split sum.split)

text \<open>
  Claim C9.  For every name, \<open>ListEntries\<close> calls \<open>List\<close> with members not
  suppressed and, on success, returns exactly the element strings of the members of the
  decoded record, as a flat sequence in decoded order; an error of \<open>List\<close> is returned
  as it is.
\<close>

theorem ListEntries_elements_in_order:
  "ListEntries bin Unmarshal ipset name calls =
     (case List bin Unmarshal ipset name False calls of
        (Inl err, calls') \<Rightarrow> (Inl err, calls')
      | (Inr s, calls') \<Rightarrow> (Inr (map Elem (Members_Members (Members s))), calls'))"
  by (simp add: ListEntries_def foldl_snoc_map split: prod.split sum.split)

section \<open>Arguments of the mutating subcommands\<close>

text \<open>
  Claim C6.  \<open>Destroy\<close> always passes the name as an argument of the subcommand
  \<^verbatim>\<open>destroy\<close>.  With the empty name the binary is run with an empty string as second
  argument, not with the bare subcommand that destroys all sets, although the function is
  documented to destroy a named set, or all sets.
\<close>

theorem Destroy_empty_name_passes_empty_argument:
  "snd (Destroy bin ipset name calls) = calls @ [[Path ipset, ''destroy'', name]]
   \<and> snd (Destroy bin ipset '''' calls) = calls @ [[Path ipset, ''destroy'', '''']]
   \<and> snd (Destroy bin ipset '''' calls) \<noteq> calls @ [[Path ipset, ''destroy'']]"
  by (simp add: Destroy_def run_eq)

text \<open>
  Claim C8.  For every name, entry and option list, \<open>AddUnique\<close> runs the binary with
  the arguments \<^verbatim>\<open>add <name> <entry> -exist [opts...]\<close>: the flag \<^verbatim>\<open>-exist\<close> stands
  between the entry and the options of the caller.
\<close>

theorem AddUnique_arguments:
  "snd (AddUnique bin ipset name entry options calls)
     = calls @ [[Path ipset] @ [''add'', name, entry, ''-exist''] @ options]"
  by (simp add: AddUnique_def run_eq)

section \<open>Errors of the subprocess\<close>

text \<open>
  Claim C7.  As stated, the claim covers every operation, and \<open>Refresh\<close> is one of them.
  When the binary exits with a status other than zero on the creation of the temporary set,
  the message of the error of \<open>Refresh\<close> is not the text of the standard error of the
  subprocess: it is that text after the prefix \<^verbatim>\<open>cannot create the temp set for swap: \<close>.
\<close>

theorem Refresh_create_exit_status_counterexample:
  "refuses ''create'' 1 ''ipset v7.15: Kernel error received: Operation not permitted''
      [[''/sbin/ipset'', ''list'', ''-o'', ''xml'', ''blocklist'', ''-t'']]
      [''/sbin/ipset'', ''create'', ''blocklist-swptemp'', ''hash:ip'',
      ''family'', ''inet'', ''hashsize'', ''1024'', ''maxelem'', ''65536'']
     = Exited 1 [] ''ipset v7.15: Kernel error received: Operation not permitted''
   \<and> fst (Refresh (refuses ''create'' 1 ''ipset v7.15: Kernel error received: Operation not permitted'') (decodes_to [example_set]) example_ipset ''blocklist'' [''10.0.0.3''] [])
     = Some (ErrorString ''cannot create the temp set for swap: ipset v7.15: Kernel error received: Operation not permitted'')
   \<and> fst (Refresh (refuses ''create'' 1 ''ipset v7.15: Kernel error received: Operation not permitted'') (decodes_to [example_set]) example_ipset ''blocklist'' [''10.0.0.3''] [])
     \<noteq> Some (ErrorString ''ipset v7.15: Kernel error received: Operation not permitted'')"
  by (simp add: Refresh_def Let_def List_def listXML_eq decodes_to_def Create_def run_eq refuses_def)

text \<open>
  Claim C7, amended.  For every argument list given to the runner, and for every operation
  that runs one subcommand, whatever its arguments: when the binary exits with a status other
  than zero, the operation fails with an error whose message is exactly the text the
  subprocess wrote to its standard error; when the binary exits with status zero, the runner
  and the mutating subcommands return success.  When an invocation made by \<open>Refresh\<close>
  exits with a status other than zero, be it the listing, an addition, the swap or the
  destruction, \<open>Refresh\<close> fails with an error whose message is exactly the standard error
  of that invocation; when it is the creation of the temporary set, the message is that
  text after the prefix \<^verbatim>\<open>cannot create the temp set for swap: \<close>.
\<close>

theorem exit_status_decides_error:
  "(bin calls (Path ipset # args) = Exited code out err \<longrightarrow>
      fst (fst (runWithOutput bin ipset args stdout calls)) = (if code = 0 then None else Some (ErrorString err))
      \<and> fst (run bin ipset args calls) = (if code = 0 then None else Some (ErrorString err)))
   \<and> (bin calls ([Path ipset, ''create'', name, settype] @ options) = Exited code out err \<longrightarrow>
      fst (Create bin ipset name settype options calls) = (if code = 0 then None else Some (ErrorString err)))
   \<and> (bin calls ([Path ipset, ''add'', name, entry] @ options) = Exited code out err \<longrightarrow>
      fst (Add bin ipset name entry options calls) = (if code = 0 then None else Some (ErrorString err)))
   \<and> (bin calls ([Path ipset, ''add'', name, entry, ''-exist''] @ options) = Exited code out err \<longrightarrow>
      fst (AddUnique bin ipset name entry options calls) = (if code = 0 then None else Some (ErrorString err)))
   \<and> (bin calls ([Path ipset, ''del'', name, entry] @ options) = Exited code out err \<longrightarrow>
      fst (Delete bin ipset name entry options calls) = (if code = 0 then None else Some (ErrorString err)))
   \<and> (bin calls ([Path ipset, ''test'', name, entry] @ options) = Exited code out err \<longrightarrow>
      fst (Test bin ipset name entry options calls) = (if code = 0 then None else Some (ErrorString err)))
   \<and> (bin calls ([Path ipset, ''destroy'', name]) = Exited code out err \<longrightarrow>
      fst (Destroy bin ipset name calls) = (if code = 0 then None else Some (ErrorString err)))
   \<and> (bin calls ([Path ipset, ''save'', name, ''-file'', filename]) = Exited code out err \<longrightarrow>
      fst (Save bin ipset name filename calls) = (if code = 0 then None else Some (ErrorString err)))
   \<and> (bin calls ([Path ipset, ''restore'', ''-file'', filename]) = Exited code out err \<longrightarrow>
      fst (Restore bin ipset filename calls) = (if code = 0 then None else Some (ErrorString err)))
   \<and> (bin calls ([Path ipset, ''flush'', name]) = Exited code out err \<longrightarrow>
      fst (Flush bin ipset name calls) = (if code = 0 then None else Some (ErrorString err)))
   \<and> (bin calls ([Path ipset, ''rename'', name, name']) = Exited code out err \<longrightarrow>
      fst (Rename bin ipset name name' calls) = (if code = 0 then None else Some (ErrorString err)))
   \<and> (bin calls ([Path ipset, ''swap'', name, name']) = Exited code out err \<longrightarrow>
      fst (Swap bin ipset name name' calls) = (if code = 0 then None else Some (ErrorString err)))
   \<and> (bin calls ([Path ipset, ''list'', ''-o'', ''xml''] @ (if suppressMembers then [''-t''] else [])) = Exited code out err \<longrightarrow> code \<noteq> 0 \<longrightarrow>
      fst (ListSets bin Unmarshal ipset suppressMembers calls) = Inl (ErrorString err))
   \<and> (bin calls ([Path ipset, ''list'', ''-o'', ''xml'', name] @ (if suppressMembers then [''-t''] else [])) = Exited code out err \<longrightarrow> code \<noteq> 0 \<longrightarrow>
      fst (List bin Unmarshal ipset name suppressMembers calls) = Inl (ErrorString err))
   \<and> (bin calls ([Path ipset, ''list'', ''-o'', ''xml'', name]) = Exited code out err \<longrightarrow> code \<noteq> 0 \<longrightarrow>
      fst (ListEntries bin Unmarshal ipset name calls) = Inl (ErrorString err))
   \<and> (bin calls ([Path ipset, ''list'', ''-o'', ''xml'', ''-n'']) = Exited code out err \<longrightarrow> code \<noteq> 0 \<longrightarrow>
      fst (ListSetNames bin Unmarshal ipset calls) = Inl (ErrorString err))
   \<and> (bin calls ([Path ipset, ''list'', ''-o'', ''xml'', name, ''-t'']) = Exited code out err \<longrightarrow> code \<noteq> 0 \<longrightarrow>
      fst (GetReferences bin Unmarshal ipset name calls) = Inl (ErrorString err))
   \<and> (bin calls [Path ipset, ''list'', ''-o'', ''xml'', name, ''-t''] = Exited code out err \<and> code \<noteq> 0 \<longrightarrow>
      fst (Refresh bin Unmarshal ipset name entries calls) = Some (ErrorString err))
   \<and> (List bin Unmarshal ipset name True calls = (Inr s, after_list)
      \<and> bin after_list [Path ipset, ''create'', name @ ''-swptemp'', Type s,
          ''family'', Family (Header s), ''hashsize'', FormatInt (HashSize (Header s)),
          ''maxelem'', FormatInt (Maxelem (Header s))] = Exited code out err \<and> code \<noteq> 0 \<longrightarrow>
      fst (Refresh bin Unmarshal ipset name entries calls) = Some (ErrorString (''cannot create the temp set for swap: '' @ err)))
   \<and> (List bin Unmarshal ipset name True calls = (Inr s, after_list)
      \<and> Create bin ipset (name @ ''-swptemp'') (Type s)
          [''family'', Family (Header s), ''hashsize'', FormatInt (HashSize (Header s)),
          ''maxelem'', FormatInt (Maxelem (Header s))] after_list = (None, after_create)
      \<and> i < length entries
      \<and> Refresh_entries bin ipset (name @ ''-swptemp'') (take i entries) after_create = (None, after_add)
      \<and> bin after_add [Path ipset, ''add'', name @ ''-swptemp'', entries ! i, ''-exist''] = Exited code out err \<and> code \<noteq> 0 \<longrightarrow>
      fst (Refresh bin Unmarshal ipset name entries calls) = Some (ErrorString err))
   \<and> (List bin Unmarshal ipset name True calls = (Inr s, after_list)
      \<and> Create bin ipset (name @ ''-swptemp'') (Type s)
          [''family'', Family (Header s), ''hashsize'', FormatInt (HashSize (Header s)),
          ''maxelem'', FormatInt (Maxelem (Header s))] after_list = (None, after_create)
      \<and> Refresh_entries bin ipset (name @ ''-swptemp'') entries after_create = (None, after_add)
      \<and> bin after_add [Path ipset, ''swap'', name @ ''-swptemp'', name] = Exited code out err \<and> code \<noteq> 0 \<longrightarrow>
      fst (Refresh bin Unmarshal ipset name entries calls) = Some (ErrorString err))
   \<and> (List bin Unmarshal ipset name True calls = (Inr s, after_list)
      \<and> Create bin ipset (name @ ''-swptemp'') (Type s)
          [''family'', Family (Header s), ''hashsize'', FormatInt (HashSize (Header s)),
          ''maxelem'', FormatInt (Maxelem (Header s))] after_list = (None, after_create)
      \<and> Refresh_entries bin ipset (name @ ''-swptemp'') entries after_create = (None, after_add)
      \<and> Swap bin ipset (name @ ''-swptemp'') name after_add = (None, after_swap)
      \<and> bin after_swap [Path ipset, ''destroy'', name @ ''-swptemp''] = Exited code out err \<and> code \<noteq> 0 \<longrightarrow>
      fst (Refresh bin Unmarshal ipset name entries calls) = Some (ErrorString err))"
proof (intro conjI impI)
  show "fst (Refresh bin Unmarshal ipset name entries calls) = Some (ErrorString err)"
    if "bin calls [Path ipset, ''list'', ''-o'', ''xml'', name, ''-t''] = Exited code out err \<and> code \<noteq> 0"
    using that Refresh_fails_at_list [of bin calls ipset name "ExitError code" Unmarshal entries] by simp
  show "fst (Refresh bin Unmarshal ipset name entries calls) = Some (ErrorString (''cannot create the temp set for swap: '' @ err))"
    if "List bin Unmarshal ipset name True calls = (Inr s, after_list)
      \<and> bin after_list [Path ipset, ''create'', name @ ''-swptemp'', Type s,
          ''family'', Family (Header s), ''hashsize'', FormatInt (HashSize (Header s)),
          ''maxelem'', FormatInt (Maxelem (Header s))] = Exited code out err \<and> code \<noteq> 0"
    using that Refresh_fails_at_create [of bin Unmarshal ipset name calls s after_list "ExitError code" entries] by simp
  show "fst (Refresh bin Unmarshal ipset name entries calls) = Some (ErrorString err)"
    if "List bin Unmarshal ipset name True calls = (Inr s, after_list)
      \<and> Create bin ipset (name @ ''-swptemp'') (Type s)
          [''family'', Family (Header s), ''hashsize'', FormatInt (HashSize (Header s)),
          ''maxelem'', FormatInt (Maxelem (Header s))] after_list = (None, after_create)
      \<and> i < length entries
      \<and> Refresh_entries bin ipset (name @ ''-swptemp'') (take i entries) after_create = (None, after_add)
      \<and> bin after_add [Path ipset, ''add'', name @ ''-swptemp'', entries ! i, ''-exist''] = Exited code out err \<and> code \<noteq> 0"
    using that Refresh_fails_at_add [of bin Unmarshal ipset name calls s after_list after_create i entries after_add "ExitError code"] by simp
  show "fst (Refresh bin Unmarshal ipset name entries calls) = Some (ErrorString err)"
    if "List bin Unmarshal ipset name True calls = (Inr s, after_list)
      \<and> Create bin ipset (name @ ''-swptemp'') (Type s)
          [''family'', Family (Header s), ''hashsize'', FormatInt (HashSize (Header s)),
          ''maxelem'', FormatInt (Maxelem (Header s))] after_list = (None, after_create)
      \<and> Refresh_entries bin ipset (name @ ''-swptemp'') entries after_create = (None, after_add)
      \<and> bin after_add [Path ipset, ''swap'', name @ ''-swptemp'', name] = Exited code out err \<and> code \<noteq> 0"
    using that Refresh_fails_at_swap [of bin Unmarshal ipset name calls s after_list after_create entries after_add "ExitError code"] by simp
  show "fst (Refresh bin Unmarshal ipset name entries calls) = Some (ErrorString err)"
    if "List bin Unmarshal ipset name True calls = (Inr s, after_list)
      \<and> Create bin ipset (name @ ''-swptemp'') (Type s)
          [''family'', Family (Header s), ''hashsize'', FormatInt (HashSize (Header s)),
          ''maxelem'', FormatInt (Maxelem (Header s))] after_list = (None, after_create)
      \<and> Refresh_entries bin ipset (name @ ''-swptemp'') entries after_create = (None, after_add)
      \<and> Swap bin ipset (name @ ''-swptemp'') name after_add = (None, after_swap)
      \<and> bin after_swap [Path ipset, ''destroy'', name @ ''-swptemp''] = Exited code out err \<and> code \<noteq> 0"
    using that Refresh_fails_at_destroy [of bin Unmarshal ipset name calls s after_list after_create entries after_add after_swap "ExitError code"] by simp
qed (simp_all add: runWithOutput_eq run_eq Create_def Add_def AddUnique_def Delete_def Test_def Destroy_def Save_def Restore_def Flush_def Rename_def Swap_def ListSets_def List_def ListEntries_def ListSetNames_def GetReferences_def listXML_eq)

theorem exit_status_decides_error_witness:
  "fst (run (exits_with 1 ''ipset v7.15: The set with the given name does not exist'') example_ipset [''flush'', ''blocklist''] []) = Some (ErrorString ''ipset v7.15: The set with the given name does not exist'')
   \<and> fst (Create (exits_with 1 ''ipset v7.15: The set with the given name does not exist'') example_ipset ''blocklist'' ''hash:ip'' [''timeout'', ''300''] []) = Some (ErrorString ''ipset v7.15: The set with the given name does not exist'')
   \<and> fst (Add (exits_with 1 ''ipset v7.15: The set with the given name does not exist'') example_ipset ''blocklist'' ''10.0.0.1'' [''timeout'', ''300''] []) = Some (ErrorString ''ipset v7.15: The set with the given name does not exist'')
   \<and> fst (AddUnique (exits_with 1 ''ipset v7.15: The set with the given name does not exist'') example_ipset ''blocklist'' ''10.0.0.1'' [''timeout'', ''300''] []) = Some (ErrorString ''ipset v7.15: The set with the given name does not exist'')
   \<and> fst (Delete (exits_with 1 ''ipset v7.15: The set with the given name does not exist'') example_ipset ''blocklist'' ''10.0.0.1'' [''timeout'', ''300''] []) = Some (ErrorString ''ipset v7.15: The set with the given name does not exist'')
   \<and> fst (Test (exits_with 1 ''ipset v7.15: The set with the given name does not exist'') example_ipset ''blocklist'' ''10.0.0.1'' [''timeout'', ''300''] []) = Some (ErrorString ''ipset v7.15: The set with the given name does not exist'')
   \<and> fst (Destroy (exits_with 1 ''ipset v7.15: The set with the given name does not exist'') example_ipset ''blocklist'' []) = Some (ErrorString ''ipset v7.15: The set with the given name does not exist'')
   \<and> fst (Save (exits_with 1 ''ipset v7.15: The set with the given name does not exist'') example_ipset ''blocklist'' ''/tmp/sets.txt'' []) = Some (ErrorString ''ipset v7.15: The set with the given name does not exist'')
   \<and> fst (Restore (exits_with 1 ''ipset v7.15: The set with the given name does not exist'') example_ipset ''/tmp/sets.txt'' []) = Some (ErrorString ''ipset v7.15: The set with the given name does not exist'')
   \<and> fst (Flush (exits_with 1 ''ipset v7.15: The set with the given name does not exist'') example_ipset ''blocklist'' []) = Some (ErrorString ''ipset v7.15: The set with the given name does not exist'')
   \<and> fst (Rename (exits_with 1 ''ipset v7.15: The set with the given name does not exist'') example_ipset ''blocklist'' ''allowlist'' []) = Some (ErrorString ''ipset v7.15: The set with the given name does not exist'')
   \<and> fst (Swap (exits_with 1 ''ipset v7.15: The set with the given name does not exist'') example_ipset ''blocklist'' ''allowlist'' []) = Some (ErrorString ''ipset v7.15: The set with the given name does not exist'')
   \<and> fst (ListSets (exits_with 1 ''ipset v7.15: The set with the given name does not exist'') (decodes_to [example_set]) example_ipset True []) = Inl (ErrorString ''ipset v7.15: The set with the given name does not exist'')
   \<and> fst (List (exits_with 1 ''ipset v7.15: The set with the given name does not exist'') (decodes_to [example_set]) example_ipset ''blocklist'' True []) = Inl (ErrorString ''ipset v7.15: The set with the given name does not exist'')
   \<and> fst (ListEntries (exits_with 1 ''ipset v7.15: The set with the given name does not exist'') (decodes_to [example_set]) example_ipset ''blocklist'' []) = Inl (ErrorString ''ipset v7.15: The set with the given name does not exist'')
   \<and> fst (ListSetNames (exits_with 1 ''ipset v7.15: The set with the given name does not exist'') (decodes_to [example_set]) example_ipset []) = Inl (ErrorString ''ipset v7.15: The set with the given name does not exist'')
   \<and> fst (GetReferences (exits_with 1 ''ipset v7.15: The set with the given name does not exist'') (decodes_to [example_set]) example_ipset ''blocklist'' []) = Inl (ErrorString ''ipset v7.15: The set with the given name does not exist'')
   \<and> fst (Refresh (exits_with 1 ''ipset v7.15: The set with the given name does not exist'') (decodes_to [example_set]) example_ipset ''blocklist'' [''10.0.0.3''] []) = Some (ErrorString ''ipset v7.15: The set with the given name does not exist'')
   \<and> fst (run (exits_with 0 []) example_ipset [''flush'', ''blocklist''] []) = None
   \<and> fst (Create (exits_with 0 []) example_ipset ''blocklist'' ''hash:ip'' [''timeout'', ''300''] []) = None
   \<and> fst (Add (exits_with 0 []) example_ipset ''blocklist'' ''10.0.0.1'' [''timeout'', ''300''] []) = None
   \<and> fst (AddUnique (exits_with 0 []) example_ipset ''blocklist'' ''10.0.0.1'' [''timeout'', ''300''] []) = None
   \<and> fst (Delete (exits_with 0 []) example_ipset ''blocklist'' ''10.0.0.1'' [''timeout'', ''300''] []) = None
   \<and> fst (Test (exits_with 0 []) example_ipset ''blocklist'' ''10.0.0.1'' [''timeout'', ''300''] []) = None
   \<and> fst (Destroy (exits_with 0 []) example_ipset ''blocklist'' []) = None
   \<and> fst (Save (exits_with 0 []) example_ipset ''blocklist'' ''/tmp/sets.txt'' []) = None
   \<and> fst (Restore (exits_with 0 []) example_ipset ''/tmp/sets.txt'' []) = None
   \<and> fst (Flush (exits_with 0 []) example_ipset ''blocklist'' []) = None
   \<and> fst (Rename (exits_with 0 []) example_ipset ''blocklist'' ''allowlist'' []) = None
   \<and> fst (Swap (exits_with 0 []) example_ipset ''blocklist'' ''allowlist'' []) = None
   \<and> fst (Refresh (refuses ''create'' 1 ''ipset v7.15: Kernel error received: Operation not permitted'') (decodes_to [example_set]) example_ipset ''blocklist'' [''10.0.0.3''] []) = Some (ErrorString ''cannot create the temp set for swap: ipset v7.15: Kernel error received: Operation not permitted'')
   \<and> fst (Refresh (refuses ''add'' 1 ''ipset v7.15: Kernel error received: Operation not permitted'') (decodes_to [example_set]) example_ipset ''blocklist'' [''10.0.0.3''] []) = Some (ErrorString ''ipset v7.15: Kernel error received: Operation not permitted'')
   \<and> fst (Refresh (refuses ''swap'' 1 ''ipset v7.15: Kernel error received: Operation not permitted'') (decodes_to [example_set]) example_ipset ''blocklist'' [''10.0.0.3''] []) = Some (ErrorString ''ipset v7.15: Kernel error received: Operation not permitted'')
   \<and> fst (Refresh (refuses ''destroy'' 1 ''ipset v7.15: Kernel error received: Operation not permitted'') (decodes_to [example_set]) example_ipset ''blocklist'' [''10.0.0.3''] []) = Some (ErrorString ''ipset v7.15: Kernel error received: Operation not permitted'')"
proof -
  have a: "fst (run (exits_with 1 ''ipset v7.15: The set with the given name does not exist'') example_ipset [''flush'', ''blocklist''] []) = Some (ErrorString ''ipset v7.15: The set with the given name does not exist'')
       \<and> fst (Create (exits_with 1 ''ipset v7.15: The set with the given name does not exist'') example_ipset ''blocklist'' ''hash:ip'' [''timeout'', ''300''] []) = Some (ErrorString ''ipset v7.15: The set with the given name does not exist'')
       \<and> fst (Add (exits_with 1 ''ipset v7.15: The set with the given name does not exist'') example_ipset ''blocklist'' ''10.0.0.1'' [''timeout'', ''300''] []) = Some (ErrorString ''ipset v7.15: The set with the given name does not exist'')
       \<and> fst (AddUnique (exits_with 1 ''ipset v7.15: The set with the given name does not exist'') example_ipset ''blocklist'' ''10.0.0.1'' [''timeout'', ''300''] []) = Some (ErrorString ''ipset v7.15: The set with the given name does not exist'')
       \<and> fst (Delete (exits_with 1 ''ipset v7.15: The set with the given name does not exist'') example_ipset ''blocklist'' ''10.0.0.1'' [''timeout'', ''300''] []) = Some (ErrorString ''ipset v7.15: The set with the given name does not exist'')
       \<and> fst (Test (exits_with 1 ''ipset v7.15: The set with the given name does not exist'') example_ipset ''blocklist'' ''10.0.0.1'' [''timeout'', ''300''] []) = Some (ErrorString ''ipset v7.15: The set with the given name does not exist'')
       \<and> fst (Destroy (exits_with 1 ''ipset v7.15: The set with the given name does not exist'') example_ipset ''blocklist'' []) = Some (ErrorString ''ipset v7.15: The set with the given name does not exist'')
       \<and> fst (Save (exits_with 1 ''ipset v7.15: The set with the given name does not exist'') example_ipset ''blocklist'' ''/tmp/sets.txt'' []) = Some (ErrorString ''ipset v7.15: The set with the given name does not exist'')
       \<and> fst (Restore (exits_with 1 ''ipset v7.15: The set with the given name does not exist'') example_ipset ''/tmp/sets.txt'' []) = Some (ErrorString ''ipset v7.15: The set with the given name does not exist'')
       \<and> fst (Flush (exits_with 1 ''ipset v7.15: The set with the given name does not exist'') example_ipset ''blocklist'' []) = Some (ErrorString ''ipset v7.15: The set with the given name does not exist'')
       \<and> fst (Rename (exits_with 1 ''ipset v7.15: The set with the given name does not exist'') example_ipset ''blocklist'' ''allowlist'' []) = Some (ErrorString ''ipset v7.15: The set with the given name does not exist'')
       \<and> fst (Swap (exits_with 1 ''ipset v7.15: The set with the given name does not exist'') example_ipset ''blocklist'' ''allowlist'' []) = Some (ErrorString ''ipset v7.15: The set with the given name does not exist'')
       \<and> fst (ListSets (exits_with 1 ''ipset v7.15: The set with the given name does not exist'') (decodes_to [example_set]) example_ipset True []) = Inl (ErrorString ''ipset v7.15: The set with the given name does not exist'')
       \<and> fst (List (exits_with 1 ''ipset v7.15: The set with the given name does not exist'') (decodes_to [example_set]) example_ipset ''blocklist'' True []) = Inl (ErrorString ''ipset v7.15: The set with the given name does not exist'')
       \<and> fst (ListEntries (exits_with 1 ''ipset v7.15: The set with the given name does not exist'') (decodes_to [example_set]) example_ipset ''blocklist'' []) = Inl (ErrorString ''ipset v7.15: The set with the given name does not exist'')
       \<and> fst (ListSetNames (exits_with 1 ''ipset v7.15: The set with the given name does not exist'') (decodes_to [example_set]) example_ipset []) = Inl (ErrorString ''ipset v7.15: The set with the given name does not exist'')
       \<and> fst (GetReferences (exits_with 1 ''ipset v7.15: The set with the given name does not exist'') (decodes_to [example_set]) example_ipset ''blocklist'' []) = Inl (ErrorString ''ipset v7.15: The set with the given name does not exist'')
       \<and> fst (Refresh (exits_with 1 ''ipset v7.15: The set with the given name does not exist'') (decodes_to [example_set]) example_ipset ''blocklist'' [''10.0.0.3''] []) = Some (ErrorString ''ipset v7.15: The set with the given name does not exist'')"
    using exit_status_decides_error [where bin = "exits_with 1 ''ipset v7.15: The set with the given name does not exist''" and calls = "[]"
      and ipset = example_ipset and args = "[''flush'', ''blocklist'']" and stdout = None
      and code = 1 and out = "[]" and err = "''ipset v7.15: The set with the given name does not exist''"
      and name = "''blocklist''" and name' = "''allowlist''" and settype = "''hash:ip''"
      and options = "[''timeout'', ''300'']" and entry = "''10.0.0.1''" and filename = "''/tmp/sets.txt''"
      and suppressMembers = True and Unmarshal = "decodes_to [example_set]"
      and entries = "[''10.0.0.3'']" and s = example_set and i = 0
      and after_list = "[[''/sbin/ipset'', ''list'', ''-o'', ''xml'', ''blocklist'', ''-t'']]"
      and after_create = "[[''/sbin/ipset'', ''list'', ''-o'', ''xml'', ''blocklist'', ''-t''], [''/sbin/ipset'', ''create'', ''blocklist-swptemp'', ''hash:ip'',
      ''family'', ''inet'', ''hashsize'', ''1024'', ''maxelem'', ''65536'']]"
      and after_add = "[[''/sbin/ipset'', ''list'', ''-o'', ''xml'', ''blocklist'', ''-t''], [''/sbin/ipset'', ''create'', ''blocklist-swptemp'', ''hash:ip'',
      ''family'', ''inet'', ''hashsize'', ''1024'', ''maxelem'', ''65536'']]"
      and after_swap = "[[''/sbin/ipset'', ''list'', ''-o'', ''xml'', ''blocklist'', ''-t''], [''/sbin/ipset'', ''create'', ''blocklist-swptemp'', ''hash:ip'',
      ''family'', ''inet'', ''hashsize'', ''1024'', ''maxelem'', ''65536''], [''/sbin/ipset'', ''add'', ''blocklist-swptemp'', ''10.0.0.3'', ''-exist''], [''/sbin/ipset'', ''swap'', ''blocklist-swptemp'', ''blocklist'']]"]
    by (simp add: exits_with_def)
  have b: "fst (run (exits_with 0 []) example_ipset [''flush'', ''blocklist''] []) = None
       \<and> fst (Create (exits_with 0 []) example_ipset ''blocklist'' ''hash:ip'' [''timeout'', ''300''] []) = None
       \<and> fst (Add (exits_with 0 []) example_ipset ''blocklist'' ''10.0.0.1'' [''timeout'', ''300''] []) = None
       \<and> fst (AddUnique (exits_with 0 []) example_ipset ''blocklist'' ''10.0.0.1'' [''timeout'', ''300''] []) = None
       \<and> fst (Delete (exits_with 0 []) example_ipset ''blocklist'' ''10.0.0.1'' [''timeout'', ''300''] []) = None
       \<and> fst (Test (exits_with 0 []) example_ipset ''blocklist'' ''10.0.0.1'' [''timeout'', ''300''] []) = None
       \<and> fst (Destroy (exits_with 0 []) example_ipset ''blocklist'' []) = None
       \<and> fst (Save (exits_with 0 []) example_ipset ''blocklist'' ''/tmp/sets.txt'' []) = None
       \<and> fst (Restore (exits_with 0 []) example_ipset ''/tmp/sets.txt'' []) = None
       \<and> fst (Flush (exits_with 0 []) example_ipset ''blocklist'' []) = None
       \<and> fst (Rename (exits_with 0 []) example_ipset ''blocklist'' ''allowlist'' []) = None
       \<and> fst (Swap (exits_with 0 []) example_ipset ''blocklist'' ''allowlist'' []) = None"
    using exit_status_decides_error [where bin = "exits_with 0 []" and calls = "[]"
      and ipset = example_ipset and args = "[''flush'', ''blocklist'']" and stdout = None
      and code = 0 and out = "[]" and err = "[]"
      and name = "''blocklist''" and name' = "''allowlist''" and settype = "''hash:ip''"
      and options = "[''timeout'', ''300'']" and entry = "''10.0.0.1''" and filename = "''/tmp/sets.txt''"
      and suppressMembers = True and Unmarshal = "decodes_to [example_set]"
      and entries = "[''10.0.0.3'']" and s = example_set and i = 0
      and after_list = "[[''/sbin/ipset'', ''list'', ''-o'', ''xml'', ''blocklist'', ''-t'']]"
      and after_create = "[[''/sbin/ipset'', ''list'', ''-o'', ''xml'', ''blocklist'', ''-t''], [''/sbin/ipset'', ''create'', ''blocklist-swptemp'', ''hash:ip'',
      ''family'', ''inet'', ''hashsize'', ''1024'', ''maxelem'', ''65536'']]"
      and after_add = "[[''/sbin/ipset'', ''list'', ''-o'', ''xml'', ''blocklist'', ''-t''], [''/sbin/ipset'', ''create'', ''blocklist-swptemp'', ''hash:ip'',
      ''family'', ''inet'', ''hashsize'', ''1024'', ''maxelem'', ''65536'']]"
      and after_swap = "[[''/sbin/ipset'', ''list'', ''-o'', ''xml'', ''blocklist'', ''-t''], [''/sbin/ipset'', ''create'', ''blocklist-swptemp'', ''hash:ip'',
      ''family'', ''inet'', ''hashsize'', ''1024'', ''maxelem'', ''65536''], [''/sbin/ipset'', ''add'', ''blocklist-swptemp'', ''10.0.0.3'', ''-exist''], [''/sbin/ipset'', ''swap'', ''blocklist-swptemp'', ''blocklist'']]"]
    by (simp add: exits_with_def)
  have c: "fst (Refresh (refuses ''create'' 1 ''ipset v7.15: Kernel error received: Operation not permitted'') (decodes_to [example_set]) example_ipset ''blocklist'' [''10.0.0.3''] []) = Some (ErrorString ''cannot create the temp set for swap: ipset v7.15: Kernel error received: Operation not permitted'')"
    using exit_status_decides_error [where bin = "refuses ''create'' 1 ''ipset v7.15: Kernel error received: Operation not permitted''" and calls = "[]"
      and ipset = example_ipset and args = "[''flush'', ''blocklist'']" and stdout = None
      and code = 1 and out = "[]" and err = "''ipset v7.15: Kernel error received: Operation not permitted''"
      and name = "''blocklist''" and name' = "''allowlist''" and settype = "''hash:ip''"
      and options = "[''timeout'', ''300'']" and entry = "''10.0.0.1''" and filename = "''/tmp/sets.txt''"
      and suppressMembers = True and Unmarshal = "decodes_to [example_set]"
      and entries = "[''10.0.0.3'']" and s = example_set and i = 0
      and after_list = "[[''/sbin/ipset'', ''list'', ''-o'', ''xml'', ''blocklist'', ''-t'']]"
      and after_create = "[[''/sbin/ipset'', ''list'', ''-o'', ''xml'', ''blocklist'', ''-t''], [''/sbin/ipset'', ''create'', ''blocklist-swptemp'', ''hash:ip'',
      ''family'', ''inet'', ''hashsize'', ''1024'', ''maxelem'', ''65536'']]"
      and after_add = "[[''/sbin/ipset'', ''list'', ''-o'', ''xml'', ''blocklist'', ''-t''], [''/sbin/ipset'', ''create'', ''blocklist-swptemp'', ''hash:ip'',
      ''family'', ''inet'', ''hashsize'', ''1024'', ''maxelem'', ''65536'']]"
      and after_swap = "[[''/sbin/ipset'', ''list'', ''-o'', ''xml'', ''blocklist'', ''-t''], [''/sbin/ipset'', ''create'', ''blocklist-swptemp'', ''hash:ip'',
      ''family'', ''inet'', ''hashsize'', ''1024'', ''maxelem'', ''65536''], [''/sbin/ipset'', ''add'', ''blocklist-swptemp'', ''10.0.0.3'', ''-exist''], [''/sbin/ipset'', ''swap'', ''blocklist-swptemp'', ''blocklist'']]"]
    by (simp add: refuses_def List_def listXML_eq decodes_to_def example_ipset_def example_set_def Create_def Swap_def run_eq AddUnique_def FormatInt_1024 FormatInt_65536)
  have d: "fst (Refresh (refuses ''add'' 1 ''ipset v7.15: Kernel error received: Operation not permitted'') (decodes_to [example_set]) example_ipset ''blocklist'' [''10.0.0.3''] []) = Some (ErrorString ''ipset v7.15: Kernel error received: Operation not permitted'')"
    using exit_status_decides_error [where bin = "refuses ''add'' 1 ''ipset v7.15: Kernel error received: Operation not permitted''" and calls = "[]"
      and ipset = example_ipset and args = "[''flush'', ''blocklist'']" and stdout = None
      and code = 1 and out = "[]" and err = "''ipset v7.15: Kernel error received: Operation not permitted''"
      and name = "''blocklist''" and name' = "''allowlist''" and settype = "''hash:ip''"
      and options = "[''timeout'', ''300'']" and entry = "''10.0.0.1''" and filename = "''/tmp/sets.txt''"
      and suppressMembers = True and Unmarshal = "decodes_to [example_set]"
      and entries = "[''10.0.0.3'']" and s = example_set and i = 0
      and after_list = "[[''/sbin/ipset'', ''list'', ''-o'', ''xml'', ''blocklist'', ''-t'']]"
      and after_create = "[[''/sbin/ipset'', ''list'', ''-o'', ''xml'', ''blocklist'', ''-t''], [''/sbin/ipset'', ''create'', ''blocklist-swptemp'', ''hash:ip'',
      ''family'', ''inet'', ''hashsize'', ''1024'', ''maxelem'', ''65536'']]"
      and after_add = "[[''/sbin/ipset'', ''list'', ''-o'', ''xml'', ''blocklist'', ''-t''], [''/sbin/ipset'', ''create'', ''blocklist-swptemp'', ''hash:ip'',
      ''family'', ''inet'', ''hashsize'', ''1024'', ''maxelem'', ''65536'']]"
      and after_swap = "[[''/sbin/ipset'', ''list'', ''-o'', ''xml'', ''blocklist'', ''-t''], [''/sbin/ipset'', ''create'', ''blocklist-swptemp'', ''hash:ip'',
      ''family'', ''inet'', ''hashsize'', ''1024'', ''maxelem'', ''65536''], [''/sbin/ipset'', ''add'', ''blocklist-swptemp'', ''10.0.0.3'', ''-exist''], [''/sbin/ipset'', ''swap'', ''blocklist-swptemp'', ''blocklist'']]"]
    by (simp add: refuses_def List_def listXML_eq decodes_to_def example_ipset_def example_set_def Create_def Swap_def run_eq AddUnique_def FormatInt_1024 FormatInt_65536)
  have e: "fst (Refresh (refuses ''swap'' 1 ''ipset v7.15: Kernel error received: Operation not permitted'') (decodes_to [example_set]) example_ipset ''blocklist'' [''10.0.0.3''] []) = Some (ErrorString ''ipset v7.15: Kernel error received: Operation not permitted'')"
    using exit_status_decides_error [where bin = "refuses ''swap'' 1 ''ipset v7.15: Kernel error received: Operation not permitted''" and calls = "[]"
      and ipset = example_ipset and args = "[''flush'', ''blocklist'']" and stdout = None
      and code = 1 and out = "[]" and err = "''ipset v7.15: Kernel error received: Operation not permitted''"
      and name = "''blocklist''" and name' = "''allowlist''" and settype = "''hash:ip''"
      and options = "[''timeout'', ''300'']" and entry = "''10.0.0.1''" and filename = "''/tmp/sets.txt''"
      and suppressMembers = True and Unmarshal = "decodes_to [example_set]"
      and entries = "[''10.0.0.3'']" and s = example_set and i = 0
      and after_list = "[[''/sbin/ipset'', ''list'', ''-o'', ''xml'', ''blocklist'', ''-t'']]"
      and after_create = "[[''/sbin/ipset'', ''list'', ''-o'', ''xml'', ''blocklist'', ''-t''], [''/sbin/ipset'', ''create'', ''blocklist-swptemp'', ''hash:ip'',
      ''family'', ''inet'', ''hashsize'', ''1024'', ''maxelem'', ''65536'']]"
      and after_add = "[[''/sbin/ipset'', ''list'', ''-o'', ''xml'', ''blocklist'', ''-t''], [''/sbin/ipset'', ''create'', ''blocklist-swptemp'', ''hash:ip'',
      ''family'', ''inet'', ''hashsize'', ''1024'', ''maxelem'', ''65536''], [''/sbin/ipset'', ''add'', ''blocklist-swptemp'', ''10.0.0.3'', ''-exist'']]"
      and after_swap = "[[''/sbin/ipset'', ''list'', ''-o'', ''xml'', ''blocklist'', ''-t''], [''/sbin/ipset'', ''create'', ''blocklist-swptemp'', ''hash:ip'',
      ''family'', ''inet'', ''hashsize'', ''1024'', ''maxelem'', ''65536''], [''/sbin/ipset'', ''add'', ''blocklist-swptemp'', ''10.0.0.3'', ''-exist''], [''/sbin/ipset'', ''swap'', ''blocklist-swptemp'', ''blocklist'']]"]
    by (simp add: refuses_def List_def listXML_eq decodes_to_def example_ipset_def example_set_def Create_def Swap_def run_eq AddUnique_def FormatInt_1024 FormatInt_65536)
  have f: "fst (Refresh (refuses ''destroy'' 1 ''ipset v7.15: Kernel error received: Operation not permitted'') (decodes_to [example_set]) example_ipset ''blocklist'' [''10.0.0.3''] []) = Some (ErrorString ''ipset v7.15: Kernel error received: Operation not permitted'')"
    using exit_status_decides_error [where bin = "refuses ''destroy'' 1 ''ipset v7.15: Kernel error received: Operation not permitted''" and calls = "[]"
      and ipset = example_ipset and args = "[''flush'', ''blocklist'']" and stdout = None
      and code = 1 and out = "[]" and err = "''ipset v7.15: Kernel error received: Operation not permitted''"
      and name = "''blocklist''" and name' = "''allowlist''" and settype = "''hash:ip''"
      and options = "[''timeout'', ''300'']" and entry = "''10.0.0.1''" and filename = "''/tmp/sets.txt''"
      and suppressMembers = True and Unmarshal = "decodes_to [example_set]"
      and entries = "[''10.0.0.3'']" and s = example_set and i = 0
      and after_list = "[[''/sbin/ipset'', ''list'', ''-o'', ''xml'', ''blocklist'', ''-t'']]"
      and after_create = "[[''/sbin/ipset'', ''list'', ''-o'', ''xml'', ''blocklist'', ''-t''], [''/sbin/ipset'', ''create'', ''blocklist-swptemp'', ''hash:ip'',
      ''family'', ''inet'', ''hashsize'', ''1024'', ''maxelem'', ''65536'']]"
      and after_add = "[[''/sbin/ipset'', ''list'', ''-o'', ''xml'', ''blocklist'', ''-t''], [''/sbin/ipset'', ''create'', ''blocklist-swptemp'', ''hash:ip'',
      ''family'', ''inet'', ''hashsize'', ''1024'', ''maxelem'', ''65536''], [''/sbin/ipset'', ''add'', ''blocklist-swptemp'', ''10.0.0.3'', ''-exist'']]"
      and after_swap = "[[''/sbin/ipset'', ''list'', ''-o'', ''xml'', ''blocklist'', ''-t''], [''/sbin/ipset'', ''create'', ''blocklist-swptemp'', ''hash:ip'',
      ''family'', ''inet'', ''hashsize'', ''1024'', ''maxelem'', ''65536''], [''/sbin/ipset'', ''add'', ''blocklist-swptemp'', ''10.0.0.3'', ''-exist''], [''/sbin/ipset'', ''swap'', ''blocklist-swptemp'', ''blocklist'']]"]
    by (simp add: refuses_def List_def listXML_eq decodes_to_def example_ipset_def example_set_def Create_def Swap_def run_eq AddUnique_def FormatInt_1024 FormatInt_65536)
  from a b c d e f show ?thesis by simp
qed

text \<open>
  Claim C10.  As stated, the claim covers every operation, and \<open>Refresh\<close> is one of them.
  When the creation of the temporary set fails and the subprocess has written nothing to
  its standard error, the message of the error of \<open>Refresh\<close> is not the empty string:
  it is the prefix \<^verbatim>\<open>cannot create the temp set for swap: \<close>.
\<close>

theorem Refresh_silent_create_failure_counterexample:
  "Run_error (refuses ''create'' 2 []
      [[''/sbin/ipset'', ''list'', ''-o'', ''xml'', ''blocklist'', ''-t'']]
      [''/sbin/ipset'', ''create'', ''blocklist-swptemp'', ''hash:ip'',
      ''family'', ''inet'', ''hashsize'', ''1024'', ''maxelem'', ''65536''])
     = Some (ExitError 2)
   \<and> Run_stderr (refuses ''create'' 2 []
      [[''/sbin/ipset'', ''list'', ''-o'', ''xml'', ''blocklist'', ''-t'']]
      [''/sbin/ipset'', ''create'', ''blocklist-swptemp'', ''hash:ip'',
      ''family'', ''inet'', ''hashsize'', ''1024'', ''maxelem'', ''65536''])
     = []
   \<and> fst (Refresh (refuses ''create'' 2 []) (decodes_to [example_set]) example_ipset ''blocklist'' [''10.0.0.3''] [])
     = Some (ErrorString ''cannot create the temp set for swap: '')
   \<and> fst (Refresh (refuses ''create'' 2 []) (decodes_to [example_set]) example_ipset ''blocklist'' [''10.0.0.3''] [])
     \<noteq> Some (ErrorString [])"
  by (simp add: Refresh_def Let_def List_def listXML_eq decodes_to_def Create_def run_eq refuses_def)

text \<open>
  Claim C10, amended.  Whenever an invocation of the binary fails, the error returned by the
  runner carries the contents of the standard-error buffer only, whatever the error of the
  process was.  In particular, when the subprocess fails having written nothing to its
  standard error, as when it cannot be started at all, the runner and every operation that
  runs one subcommand return an error whose message is the empty string.  So does
  \<open>Refresh\<close> when the failing invocation is the listing, an addition, the swap or the
  destruction; when it is the creation of the temporary set, the message of the error of
  \<open>Refresh\<close> is the prefix \<^verbatim>\<open>cannot create the temp set for swap: \<close> alone.
\<close>

theorem failure_reports_only_stderr:
  "(Run_error (bin calls (Path ipset # args)) = Some cause \<longrightarrow>
      fst (fst (runWithOutput bin ipset args stdout calls)) = Some (ErrorString (Run_stderr (bin calls (Path ipset # args))))
      \<and> fst (run bin ipset args calls) = Some (ErrorString (Run_stderr (bin calls (Path ipset # args)))))
   \<and> (bin calls (Path ipset # args) = StartFailure why \<longrightarrow>
      fst (fst (runWithOutput bin ipset args stdout calls)) = Some (ErrorString [])
      \<and> fst (run bin ipset args calls) = Some (ErrorString []))
   \<and> (Run_error (bin calls ([Path ipset, ''create'', name, settype] @ options)) \<noteq> None
      \<and> Run_stderr (bin calls ([Path ipset, ''create'', name, settype] @ options)) = [] \<longrightarrow>
      fst (Create bin ipset name settype options calls) = Some (ErrorString []))
   \<and> (Run_error (bin calls ([Path ipset, ''add'', name, entry] @ options)) \<noteq> None
      \<and> Run_stderr (bin calls ([Path ipset, ''add'', name, entry] @ options)) = [] \<longrightarrow>
      fst (Add bin ipset name entry options calls) = Some (ErrorString []))
   \<and> (Run_error (bin calls ([Path ipset, ''add'', name, entry, ''-exist''] @ options)) \<noteq> None
      \<and> Run_stderr (bin calls ([Path ipset, ''add'', name, entry, ''-exist''] @ options)) = [] \<longrightarrow>
      fst (AddUnique bin ipset name entry options calls) = Some (ErrorString []))
   \<and> (Run_error (bin calls ([Path ipset, ''del'', name, entry] @ options)) \<noteq> None
      \<and> Run_stderr (bin calls ([Path ipset, ''del'', name, entry] @ options)) = [] \<longrightarrow>
      fst (Delete bin ipset name entry options calls) = Some (ErrorString []))
   \<and> (Run_error (bin calls ([Path ipset, ''test'', name, entry] @ options)) \<noteq> None
      \<and> Run_stderr (bin calls ([Path ipset, ''test'', name, entry] @ options)) = [] \<longrightarrow>
      fst (Test bin ipset name entry options calls) = Some (ErrorString []))
   \<and> (Run_error (bin calls ([Path ipset, ''destroy'', name])) \<noteq> None
      \<and> Run_stderr (bin calls ([Path ipset, ''destroy'', name])) = [] \<longrightarrow>
      fst (Destroy bin ipset name calls) = Some (ErrorString []))
   \<and> (Run_error (bin calls ([Path ipset, ''save'', name, ''-file'', filename])) \<noteq> None
      \<and> Run_stderr (bin calls ([Path ipset, ''save'', name, ''-file'', filename])) = [] \<longrightarrow>
      fst (Save bin ipset name filename calls) = Some (ErrorString []))
   \<and> (Run_error (bin calls ([Path ipset, ''restore'', ''-file'', filename])) \<noteq> None
      \<and> Run_stderr (bin calls ([Path ipset, ''restore'', ''-file'', filename])) = [] \<longrightarrow>
      fst (Restore bin ipset filename calls) = Some (ErrorString []))
   \<and> (Run_error (bin calls ([Path ipset, ''flush'', name])) \<noteq> None
      \<and> Run_stderr (bin calls ([Path ipset, ''flush'', name])) = [] \<longrightarrow>
      fst (Flush bin ipset name calls) = Some (ErrorString []))
   \<and> (Run_error (bin calls ([Path ipset, ''rename'', name, name'])) \<noteq> None
      \<and> Run_stderr (bin calls ([Path ipset, ''rename'', name, name'])) = [] \<longrightarrow>
      fst (Rename bin ipset name name' calls) = Some (ErrorString []))
   \<and> (Run_error (bin calls ([Path ipset, ''swap'', name, name'])) \<noteq> None
      \<and> Run_stderr (bin calls ([Path ipset, ''swap'', name, name'])) = [] \<longrightarrow>
      fst (Swap bin ipset name name' calls) = Some (ErrorString []))
   \<and> (Run_error (bin calls ([Path ipset, ''list'', ''-o'', ''xml''] @ (if suppressMembers then [''-t''] else []))) \<noteq> None
      \<and> Run_stderr (bin calls ([Path ipset, ''list'', ''-o'', ''xml''] @ (if suppressMembers then [''-t''] else []))) = [] \<longrightarrow>
      fst (ListSets bin Unmarshal ipset suppressMembers calls) = Inl (ErrorString []))
   \<and> (Run_error (bin calls ([Path ipset, ''list'', ''-o'', ''xml'', name] @ (if suppressMembers then [''-t''] else []))) \<noteq> None
      \<and> Run_stderr (bin calls ([Path ipset, ''list'', ''-o'', ''xml'', name] @ (if suppressMembers then [''-t''] else []))) = [] \<longrightarrow>
      fst (List bin Unmarshal ipset name suppressMembers calls) = Inl (ErrorString []))
   \<and> (Run_error (bin calls ([Path ipset, ''list'', ''-o'', ''xml'', name])) \<noteq> None
      \<and> Run_stderr (bin calls ([Path ipset, ''list'', ''-o'', ''xml'', name])) = [] \<longrightarrow>
      fst (ListEntries bin Unmarshal ipset name calls) = Inl (ErrorString []))
   \<and> (Run_error (bin calls ([Path ipset, ''list'', ''-o'', ''xml'', ''-n''])) \<noteq> None
      \<and> Run_stderr (bin calls ([Path ipset, ''list'', ''-o'', ''xml'', ''-n''])) = [] \<longrightarrow>
      fst (ListSetNames bin Unmarshal ipset calls) = Inl (ErrorString []))
   \<and> (Run_error (bin calls ([Path ipset, ''list'', ''-o'', ''xml'', name, ''-t''])) \<noteq> None
      \<and> Run_stderr (bin calls ([Path ipset, ''list'', ''-o'', ''xml'', name, ''-t''])) = [] \<longrightarrow>
      fst (GetReferences bin Unmarshal ipset name calls) = Inl (ErrorString []))
   \<and> (Run_error (bin calls [Path ipset, ''list'', ''-o'', ''xml'', name, ''-t'']) \<noteq> None
      \<and> Run_stderr (bin calls [Path ipset, ''list'', ''-o'', ''xml'', name, ''-t'']) = [] \<longrightarrow>
      fst (Refresh bin Unmarshal ipset name entries calls) = Some (ErrorString []))
   \<and> (List bin Unmarshal ipset name True calls = (Inr s, after_list)
      \<and> Run_error (bin after_list [Path ipset, ''create'', name @ ''-swptemp'', Type s,
          ''family'', Family (Header s), ''hashsize'', FormatInt (HashSize (Header s)),
          ''maxelem'', FormatInt (Maxelem (Header s))]) \<noteq> None
      \<and> Run_stderr (bin after_list [Path ipset, ''create'', name @ ''-swptemp'', Type s,
          ''family'', Family (Header s), ''hashsize'', FormatInt (HashSize (Header s)),
          ''maxelem'', FormatInt (Maxelem (Header s))]) = [] \<longrightarrow>
      fst (Refresh bin Unmarshal ipset name entries calls) = Some (ErrorString ''cannot create the temp set for swap: ''))
   \<and> (List bin Unmarshal ipset name True calls = (Inr s, after_list)
      \<and> Create bin ipset (name @ ''-swptemp'') (Type s)
          [''family'', Family (Header s), ''hashsize'', FormatInt (HashSize (Header s)),
          ''maxelem'', FormatInt (Maxelem (Header s))] after_list = (None, after_create)
      \<and> i < length entries
      \<and> Refresh_entries bin ipset (name @ ''-swptemp'') (take i entries) after_create = (None, after_add)
      \<and> Run_error (bin after_add [Path ipset, ''add'', name @ ''-swptemp'', entries ! i, ''-exist'']) \<noteq> None
      \<and> Run_stderr (bin after_add [Path ipset, ''add'', name @ ''-swptemp'', entries ! i, ''-exist'']) = [] \<longrightarrow>
      fst (Refresh bin Unmarshal ipset name entries calls) = Some (ErrorString []))
   \<and> (List bin Unmarshal ipset name True calls = (Inr s, after_list)
      \<and> Create bin ipset (name @ ''-swptemp'') (Type s)
          [''family'', Family (Header s), ''hashsize'', FormatInt (HashSize (Header s)),
          ''maxelem'', FormatInt (Maxelem (Header s))] after_list = (None, after_create)
      \<and> Refresh_entries bin ipset (name @ ''-swptemp'') entries after_create = (None, after_add)
      \<and> Run_error (bin after_add [Path ipset, ''swap'', name @ ''-swptemp'', name]) \<noteq> None
      \<and> Run_stderr (bin after_add [Path ipset, ''swap'', name @ ''-swptemp'', name]) = [] \<longrightarrow>
      fst (Refresh bin Unmarshal ipset name entries calls) = Some (ErrorString []))
   \<and> (List bin Unmarshal ipset name True calls = (Inr s, after_list)
      \<and> Create bin ipset (name @ ''-swptemp'') (Type s)
          [''family'', Family (Header s), ''hashsize'', FormatInt (HashSize (Header s)),
          ''maxelem'', FormatInt (Maxelem (Header s))] after_list = (None, after_create)
      \<and> Refresh_entries bin ipset (name @ ''-swptemp'') entries after_create = (None, after_add)
      \<and> Swap bin ipset (name @ ''-swptemp'') name after_add = (None, after_swap)
      \<and> Run_error (bin after_swap [Path ipset, ''destroy'', name @ ''-swptemp'']) \<noteq> None
      \<and> Run_stderr (bin after_swap [Path ipset, ''destroy'', name @ ''-swptemp'']) = [] \<longrightarrow>
      fst (Refresh bin Unmarshal ipset name entries calls) = Some (ErrorString []))"
proof (intro conjI impI)
  show "fst (Refresh bin Unmarshal ipset name entries calls) = Some (ErrorString [])"
    if "Run_error (bin calls [Path ipset, ''list'', ''-o'', ''xml'', name, ''-t'']) \<noteq> None
      \<and> Run_stderr (bin calls [Path ipset, ''list'', ''-o'', ''xml'', name, ''-t'']) = []"
    using that Refresh_fails_at_list [of bin calls ipset name _ Unmarshal entries] by auto
  show "fst (Refresh bin Unmarshal ipset name entries calls) = Some (ErrorString ''cannot create the temp set for swap: '')"
    if "List bin Unmarshal ipset name True calls = (Inr s, after_list)
      \<and> Run_error (bin after_list [Path ipset, ''create'', name @ ''-swptemp'', Type s,
          ''family'', Family (Header s), ''hashsize'', FormatInt (HashSize (Header s)),
          ''maxelem'', FormatInt (Maxelem (Header s))]) \<noteq> None
      \<and> Run_stderr (bin after_list [Path ipset, ''create'', name @ ''-swptemp'', Type s,
          ''family'', Family (Header s), ''hashsize'', FormatInt (HashSize (Header s)),
          ''maxelem'', FormatInt (Maxelem (Header s))]) = []"
    using that Refresh_fails_at_create [of bin Unmarshal ipset name calls s after_list _ entries] by auto
  show "fst (Refresh bin Unmarshal ipset name entries calls) = Some (ErrorString [])"
    if "List bin Unmarshal ipset name True calls = (Inr s, after_list)
      \<and> Create bin ipset (name @ ''-swptemp'') (Type s)
          [''family'', Family (Header s), ''hashsize'', FormatInt (HashSize (Header s)),
          ''maxelem'', FormatInt (Maxelem (Header s))] after_list = (None, after_create)
      \<and> i < length entries
      \<and> Refresh_entries bin ipset (name @ ''-swptemp'') (take i entries) after_create = (None, after_add)
      \<and> Run_error (bin after_add [Path ipset, ''add'', name @ ''-swptemp'', entries ! i, ''-exist'']) \<noteq> None
      \<and> Run_stderr (bin after_add [Path ipset, ''add'', name @ ''-swptemp'', entries ! i, ''-exist'']) = []"
    using that Refresh_fails_at_add [of bin Unmarshal ipset name calls s after_list after_create i entries after_add] by auto
  show "fst (Refresh bin Unmarshal ipset name entries calls) = Some (ErrorString [])"
    if "List bin Unmarshal ipset name True calls = (Inr s, after_list)
      \<and> Create bin ipset (name @ ''-swptemp'') (Type s)
          [''family'', Family (Header s), ''hashsize'', FormatInt (HashSize (Header s)),
          ''maxelem'', FormatInt (Maxelem (Header s))] after_list = (None, after_create)
      \<and> Refresh_entries bin ipset (name @ ''-swptemp'') entries after_create = (None, after_add)
      \<and> Run_error (bin after_add [Path ipset, ''swap'', name @ ''-swptemp'', name]) \<noteq> None
      \<and> Run_stderr (bin after_add [Path ipset, ''swap'', name @ ''-swptemp'', name]) = []"
    using that Refresh_fails_at_swap [of bin Unmarshal ipset name calls s after_list after_create entries after_add] by auto
  show "fst (Refresh bin Unmarshal ipset name entries calls) = Some (ErrorString [])"
    if "List bin Unmarshal ipset name True calls = (Inr s, after_list)
      \<and> Create bin ipset (name @ ''-swptemp'') (Type s)
          [''family'', Family (Header s), ''hashsize'', FormatInt (HashSize (Header s)),
          ''maxelem'', FormatInt (Maxelem (Header s))] after_list = (None, after_create)
      \<and> Refresh_entries bin ipset (name @ ''-swptemp'') entries after_create = (None, after_add)
      \<and> Swap bin ipset (name @ ''-swptemp'') name after_add = (None, after_swap)
      \<and> Run_error (bin after_swap [Path ipset, ''destroy'', name @ ''-swptemp'']) \<noteq> None
      \<and> Run_stderr (bin after_swap [Path ipset, ''destroy'', name @ ''-swptemp'']) = []"
    using that Refresh_fails_at_destroy [of bin Unmarshal ipset name calls s after_list after_create entries after_add after_swap] by auto
qed (auto simp add: runWithOutput_eq run_eq Create_def Add_def AddUnique_def Delete_def Test_def Destroy_def Save_def Restore_def Flush_def Rename_def Swap_def ListSets_def List_def ListEntries_def ListSetNames_def GetReferences_def listXML_eq)

theorem failure_reports_only_stderr_witness:
  "fst (run cannot_start example_ipset [''flush'', ''blocklist''] []) = Some (ErrorString [])
   \<and> fst (Create cannot_start example_ipset ''blocklist'' ''hash:ip'' [''timeout'', ''300''] []) = Some (ErrorString [])
   \<and> fst (Add cannot_start example_ipset ''blocklist'' ''10.0.0.1'' [''timeout'', ''300''] []) = Some (ErrorString [])
   \<and> fst (AddUnique cannot_start example_ipset ''blocklist'' ''10.0.0.1'' [''timeout'', ''300''] []) = Some (ErrorString [])
   \<and> fst (Delete cannot_start example_ipset ''blocklist'' ''10.0.0.1'' [''timeout'', ''300''] []) = Some (ErrorString [])
   \<and> fst (Test cannot_start example_ipset ''blocklist'' ''10.0.0.1'' [''timeout'', ''300''] []) = Some (ErrorString [])
   \<and> fst (Destroy cannot_start example_ipset ''blocklist'' []) = Some (ErrorString [])
   \<and> fst (Save cannot_start example_ipset ''blocklist'' ''/tmp/sets.txt'' []) = Some (ErrorString [])
   \<and> fst (Restore cannot_start example_ipset ''/tmp/sets.txt'' []) = Some (ErrorString [])
   \<and> fst (Flush cannot_start example_ipset ''blocklist'' []) = Some (ErrorString [])
   \<and> fst (Rename cannot_start example_ipset ''blocklist'' ''allowlist'' []) = Some (ErrorString [])
   \<and> fst (Swap cannot_start example_ipset ''blocklist'' ''allowlist'' []) = Some (ErrorString [])
   \<and> fst (ListSets cannot_start (decodes_to [example_set]) example_ipset True []) = Inl (ErrorString [])
   \<and> fst (List cannot_start (decodes_to [example_set]) example_ipset ''blocklist'' True []) = Inl (ErrorString [])
   \<and> fst (ListEntries cannot_start (decodes_to [example_set]) example_ipset ''blocklist'' []) = Inl (ErrorString [])
   \<and> fst (ListSetNames cannot_start (decodes_to [example_set]) example_ipset []) = Inl (ErrorString [])
   \<and> fst (GetReferences cannot_start (decodes_to [example_set]) example_ipset ''blocklist'' []) = Inl (ErrorString [])
   \<and> fst (Refresh (cannot_start) (decodes_to [example_set]) example_ipset ''blocklist'' [''10.0.0.3''] []) = Some (ErrorString [])
   \<and> fst (Refresh (refuses ''create'' 2 []) (decodes_to [example_set]) example_ipset ''blocklist'' [''10.0.0.3''] []) = Some (ErrorString ''cannot create the temp set for swap: '')
   \<and> fst (Refresh (refuses ''add'' 2 []) (decodes_to [example_set]) example_ipset ''blocklist'' [''10.0.0.3''] []) = Some (ErrorString [])
   \<and> fst (Refresh (refuses ''swap'' 2 []) (decodes_to [example_set]) example_ipset ''blocklist'' [''10.0.0.3''] []) = Some (ErrorString [])
   \<and> fst (Refresh (refuses ''destroy'' 2 []) (decodes_to [example_set]) example_ipset ''blocklist'' [''10.0.0.3''] []) = Some (ErrorString [])"
proof -
  have a: "fst (run cannot_start example_ipset [''flush'', ''blocklist''] []) = Some (ErrorString [])
       \<and> fst (Create cannot_start example_ipset ''blocklist'' ''hash:ip'' [''timeout'', ''300''] []) = Some (ErrorString [])
       \<and> fst (Add cannot_start example_ipset ''blocklist'' ''10.0.0.1'' [''timeout'', ''300''] []) = Some (ErrorString [])
       \<and> fst (AddUnique cannot_start example_ipset ''blocklist'' ''10.0.0.1'' [''timeout'', ''300''] []) = Some (ErrorString [])
       \<and> fst (Delete cannot_start example_ipset ''blocklist'' ''10.0.0.1'' [''timeout'', ''300''] []) = Some (ErrorString [])
       \<and> fst (Test cannot_start example_ipset ''blocklist'' ''10.0.0.1'' [''timeout'', ''300''] []) = Some (ErrorString [])
       \<and> fst (Destroy cannot_start example_ipset ''blocklist'' []) = Some (ErrorString [])
       \<and> fst (Save cannot_start example_ipset ''blocklist'' ''/tmp/sets.txt'' []) = Some (ErrorString [])
       \<and> fst (Restore cannot_start example_ipset ''/tmp/sets.txt'' []) = Some (ErrorString [])
       \<and> fst (Flush cannot_start example_ipset ''blocklist'' []) = Some (ErrorString [])
       \<and> fst (Rename cannot_start example_ipset ''blocklist'' ''allowlist'' []) = Some (ErrorString [])
       \<and> fst (Swap cannot_start example_ipset ''blocklist'' ''allowlist'' []) = Some (ErrorString [])
       \<and> fst (ListSets cannot_start (decodes_to [example_set]) example_ipset True []) = Inl (ErrorString [])
       \<and> fst (List cannot_start (decodes_to [example_set]) example_ipset ''blocklist'' True []) = Inl (ErrorString [])
       \<and> fst (ListEntries cannot_start (decodes_to [example_set]) example_ipset ''blocklist'' []) = Inl (ErrorString [])
       \<and> fst (ListSetNames cannot_start (decodes_to [example_set]) example_ipset []) = Inl (ErrorString [])
       \<and> fst (GetReferences cannot_start (decodes_to [example_set]) example_ipset ''blocklist'' []) = Inl (ErrorString [])
       \<and> fst (Refresh (cannot_start) (decodes_to [example_set]) example_ipset ''blocklist'' [''10.0.0.3''] []) = Some (ErrorString [])"
    using failure_reports_only_stderr [where bin = "cannot_start" and calls = "[]"
      and ipset = example_ipset and args = "[''flush'', ''blocklist'']" and stdout = None
      and cause = "StartError ''fork/exec /sbin/ipset: no such file or directory''"
      and why = "''fork/exec /sbin/ipset: no such file or directory''"
      and name = "''blocklist''" and name' = "''allowlist''" and settype = "''hash:ip''"
      and options = "[''timeout'', ''300'']" and entry = "''10.0.0.1''" and filename = "''/tmp/sets.txt''"
      and suppressMembers = True and Unmarshal = "decodes_to [example_set]"
      and entries = "[''10.0.0.3'']" and s = example_set and i = 0
      and after_list = "[[''/sbin/ipset'', ''list'', ''-o'', ''xml'', ''blocklist'', ''-t'']]"
      and after_create = "[[''/sbin/ipset'', ''list'', ''-o'', ''xml'', ''blocklist'', ''-t''], [''/sbin/ipset'', ''create'', ''blocklist-swptemp'', ''hash:ip'',
      ''family'', ''inet'', ''hashsize'', ''1024'', ''maxelem'', ''65536'']]"
      and after_add = "[[''/sbin/ipset'', ''list'', ''-o'', ''xml'', ''blocklist'', ''-t''], [''/sbin/ipset'', ''create'', ''blocklist-swptemp'', ''hash:ip'',
      ''family'', ''inet'', ''hashsize'', ''1024'', ''maxelem'', ''65536'']]"
      and after_swap = "[[''/sbin/ipset'', ''list'', ''-o'', ''xml'', ''blocklist'', ''-t''], [''/sbin/ipset'', ''create'', ''blocklist-swptemp'', ''hash:ip'',
      ''family'', ''inet'', ''hashsize'', ''1024'', ''maxelem'', ''65536''], [''/sbin/ipset'', ''add'', ''blocklist-swptemp'', ''10.0.0.3'', ''-exist''], [''/sbin/ipset'', ''swap'', ''blocklist-swptemp'', ''blocklist'']]"]
    by (simp add: cannot_start_def)
  have c: "fst (Refresh (refuses ''create'' 2 []) (decodes_to [example_set]) example_ipset ''blocklist'' [''10.0.0.3''] []) = Some (ErrorString ''cannot create the temp set for swap: '')"
    using failure_reports_only_stderr [where bin = "refuses ''create'' 2 []" and calls = "[]"
      and ipset = example_ipset and args = "[''flush'', ''blocklist'']" and stdout = None
      and cause = "StartError ''fork/exec /sbin/ipset: no such file or directory''"
      and why = "''fork/exec /sbin/ipset: no such file or directory''"
      and name = "''blocklist''" and name' = "''allowlist''" and settype = "''hash:ip''"
      and options = "[''timeout'', ''300'']" and entry = "''10.0.0.1''" and filename = "''/tmp/sets.txt''"
      and suppressMembers = True and Unmarshal = "decodes_to [example_set]"
      and entries = "[''10.0.0.3'']" and s = example_set and i = 0
      and after_list = "[[''/sbin/ipset'', ''list'', ''-o'', ''xml'', ''blocklist'', ''-t'']]"
      and after_create = "[[''/sbin/ipset'', ''list'', ''-o'', ''xml'', ''blocklist'', ''-t''], [''/sbin/ipset'', ''create'', ''blocklist-swptemp'', ''hash:ip'',
      ''family'', ''inet'', ''hashsize'', ''1024'', ''maxelem'', ''65536'']]"
      and after_add = "[[''/sbin/ipset'', ''list'', ''-o'', ''xml'', ''blocklist'', ''-t''], [''/sbin/ipset'', ''create'', ''blocklist-swptemp'', ''hash:ip'',
      ''family'', ''inet'', ''hashsize'', ''1024'', ''maxelem'', ''65536'']]"
      and after_swap = "[[''/sbin/ipset'', ''list'', ''-o'', ''xml'', ''blocklist'', ''-t''], [''/sbin/ipset'', ''create'', ''blocklist-swptemp'', ''hash:ip'',
      ''family'', ''inet'', ''hashsize'', ''1024'', ''maxelem'', ''65536''], [''/sbin/ipset'', ''add'', ''blocklist-swptemp'', ''10.0.0.3'', ''-exist''], [''/sbin/ipset'', ''swap'', ''blocklist-swptemp'', ''blocklist'']]"]
    by (simp add: refuses_def List_def listXML_eq decodes_to_def example_ipset_def example_set_def Create_def Swap_def run_eq AddUnique_def FormatInt_1024 FormatInt_65536)
  have d: "fst (Refresh (refuses ''add'' 2 []) (decodes_to [example_set]) example_ipset ''blocklist'' [''10.0.0.3''] []) = Some (ErrorString [])"
    using failure_reports_only_stderr [where bin = "refuses ''add'' 2 []" and calls = "[]"
      and ipset = example_ipset and args = "[''flush'', ''blocklist'']" and stdout = None
      and cause = "StartError ''fork/exec /sbin/ipset: no such file or directory''"
      and why = "''fork/exec /sbin/ipset: no such file or directory''"
      and name = "''blocklist''" and name' = "''allowlist''" and settype = "''hash:ip''"
      and options = "[''timeout'', ''300'']" and entry = "''10.0.0.1''" and filename = "''/tmp/sets.txt''"
      and suppressMembers = True and Unmarshal = "decodes_to [example_set]"
      and entries = "[''10.0.0.3'']" and s = example_set and i = 0
      and after_list = "[[''/sbin/ipset'', ''list'', ''-o'', ''xml'', ''blocklist'', ''-t'']]"
      and after_create = "[[''/sbin/ipset'', ''list'', ''-o'', ''xml'', ''blocklist'', ''-t''], [''/sbin/ipset'', ''create'', ''blocklist-swptemp'', ''hash:ip'',
      ''family'', ''inet'', ''hashsize'', ''1024'', ''maxelem'', ''65536'']]"
      and after_add = "[[''/sbin/ipset'', ''list'', ''-o'', ''xml'', ''blocklist'', ''-t''], [''/sbin/ipset'', ''create'', ''blocklist-swptemp'', ''hash:ip'',
      ''family'', ''inet'', ''hashsize'', ''1024'', ''maxelem'', ''65536'']]"
      and after_swap = "[[''/sbin/ipset'', ''list'', ''-o'', ''xml'', ''blocklist'', ''-t''], [''/sbin/ipset'', ''create'', ''blocklist-swptemp'', ''hash:ip'',
      ''family'', ''inet'', ''hashsize'', ''1024'', ''maxelem'', ''65536''], [''/sbin/ipset'', ''add'', ''blocklist-swptemp'', ''10.0.0.3'', ''-exist''], [''/sbin/ipset'', ''swap'', ''blocklist-swptemp'', ''blocklist'']]"]
    by (simp add: refuses_def List_def listXML_eq decodes_to_def example_ipset_def example_set_def Create_def Swap_def run_eq AddUnique_def FormatInt_1024 FormatInt_65536)
  have e: "fst (Refresh (refuses ''swap'' 2 []) (decodes_to [example_set]) example_ipset ''blocklist'' [''10.0.0.3''] []) = Some (ErrorString [])"
    using failure_reports_only_stderr [where bin = "refuses ''swap'' 2 []" and calls = "[]"
      and ipset = example_ipset and args = "[''flush'', ''blocklist'']" and stdout = None
      and cause = "StartError ''fork/exec /sbin/ipset: no such file or directory''"
      and why = "''fork/exec /sbin/ipset: no such file or directory''"
      and name = "''blocklist''" and name' = "''allowlist''" and settype = "''hash:ip''"
      and options = "[''timeout'', ''300'']" and entry = "''10.0.0.1''" and filename = "''/tmp/sets.txt''"
      and suppressMembers = True and Unmarshal = "decodes_to [example_set]"
      and entries = "[''10.0.0.3'']" and s = example_set and i = 0
      and after_list = "[[''/sbin/ipset'', ''list'', ''-o'', ''xml'', ''blocklist'', ''-t'']]"
      and after_create = "[[''/sbin/ipset'', ''list'', ''-o'', ''xml'', ''blocklist'', ''-t''], [''/sbin/ipset'', ''create'', ''blocklist-swptemp'', ''hash:ip'',
      ''family'', ''inet'', ''hashsize'', ''1024'', ''maxelem'', ''65536'']]"
      and after_add = "[[''/sbin/ipset'', ''list'', ''-o'', ''xml'', ''blocklist'', ''-t''], [''/sbin/ipset'', ''create'', ''blocklist-swptemp'', ''hash:ip'',
      ''family'', ''inet'', ''hashsize'', ''1024'', ''maxelem'', ''65536''], [''/sbin/ipset'', ''add'', ''blocklist-swptemp'', ''10.0.0.3'', ''-exist'']]"
      and after_swap = "[[''/sbin/ipset'', ''list'', ''-o'', ''xml'', ''blocklist'', ''-t''], [''/sbin/ipset'', ''create'', ''blocklist-swptemp'', ''hash:ip'',
      ''family'', ''inet'', ''hashsize'', ''1024'', ''maxelem'', ''65536''], [''/sbin/ipset'', ''add'', ''blocklist-swptemp'', ''10.0.0.3'', ''-exist''], [''/sbin/ipset'', ''swap'', ''blocklist-swptemp'', ''blocklist'']]"]
    by (simp add: refuses_def List_def listXML_eq decodes_to_def example_ipset_def example_set_def Create_def Swap_def run_eq AddUnique_def FormatInt_1024 FormatInt_65536)
  have f: "fst (Refresh (refuses ''destroy'' 2 []) (decodes_to [example_set]) example_ipset ''blocklist'' [''10.0.0.3''] []) = Some (ErrorString [])"
    using failure_reports_only_stderr [where bin = "refuses ''destroy'' 2 []" and calls = "[]"
      and ipset = example_ipset and args = "[''flush'', ''blocklist'']" and stdout = None
      and cause = "StartError ''fork/exec /sbin/ipset: no such file or directory''"
      and why = "''fork/exec /sbin/ipset: no such file or directory''"
      and name = "''blocklist''" and name' = "''allowlist''" and settype = "''hash:ip''"
      and options = "[''timeout'', ''300'']" and entry = "''10.0.0.1''" and filename = "''/tmp/sets.txt''"
      and suppressMembers = True and Unmarshal = "decodes_to [example_set]"
      and entries = "[''10.0.0.3'']" and s = example_set and i = 0
      and after_list = "[[''/sbin/ipset'', ''list'', ''-o'', ''xml'', ''blocklist'', ''-t'']]"
      and after_create = "[[''/sbin/ipset'', ''list'', ''-o'', ''xml'', ''blocklist'', ''-t''], [''/sbin/ipset'', ''create'', ''blocklist-swptemp'', ''hash:ip'',
      ''family'', ''inet'', ''hashsize'', ''1024'', ''maxelem'', ''65536'']]"
      and after_add = "[[''/sbin/ipset'', ''list'', ''-o'', ''xml'', ''blocklist'', ''-t''], [''/sbin/ipset'', ''create'', ''blocklist-swptemp'', ''hash:ip'',
      ''family'', ''inet'', ''hashsize'', ''1024'', ''maxelem'', ''65536''], [''/sbin/ipset'', ''add'', ''blocklist-swptemp'', ''10.0.0.3'', ''-exist'']]"
      and after_swap = "[[''/sbin/ipset'', ''list'', ''-o'', ''xml'', ''blocklist'', ''-t''], [''/sbin/ipset'', ''create'', ''blocklist-swptemp'', ''hash:ip'',
      ''family'', ''inet'', ''hashsize'', ''1024'', ''maxelem'', ''65536''], [''/sbin/ipset'', ''add'', ''blocklist-swptemp'', ''10.0.0.3'', ''-exist''], [''/sbin/ipset'', ''swap'', ''blocklist-swptemp'', ''blocklist'']]"]
    by (simp add: refuses_def List_def listXML_eq decodes_to_def example_ipset_def example_set_def Create_def Swap_def run_eq AddUnique_def FormatInt_1024 FormatInt_65536)
  from a c d e f show ?thesis by simp
qed

end
